theory Spec2Isabelle
  imports Complex_Main "HOL-Library.Log_Nat"
begin

section \<open>Utility bill split: ledger, extractor, ingestion driver, coordinator\<close>

text \<open>
  A shallow embedding of \<^verbatim>\<open>src/database.py\<close> (class \<^verbatim>\<open>BillDatabase\<close>),
  \<^verbatim>\<open>config/pge_patterns.py\<close> (class \<^verbatim>\<open>PGEPatterns\<close>),
  \<^verbatim>\<open>src/gmail_parser.py\<close> (\<^verbatim>\<open>parse_pge_bill\<close>),
  \<^verbatim>\<open>src/bill_processor.py\<close> (\<^verbatim>\<open>process_latest_bills\<close>) and of the
  per-bill loop of the automation script that \<^verbatim>\<open>src/scheduler.py\<close> writes out.
\<close>

subsection \<open>Python floats\<close>

text \<open>
  Bill amounts are Python floats (IEEE binary64). The ledger, the extractor and the
  driver are written over a type of amounts \<open>'f\<close>, standing for the numeric values of
  the doubles, and receive the three float operations the code uses as the fields of a
  record; what is proved of them for every such record holds for binary64 in particular.
  Equality on \<open>'f\<close> is numeric equality, which is also what SQLite's \<^verbatim>\<open>=\<close> computes
  on the stored numbers. The binary64 operations themselves are defined further down, on
  the rational numbers.
\<close>

record 'f float_ops =
  py_float :: "string \<Rightarrow> 'f"        \<comment> \<open>\<^verbatim>\<open>float(s)\<close> on a literal matched by \<^verbatim>\<open>\d+\.\d{2}\<close>\<close>
  py_mul :: "'f \<Rightarrow> 'f \<Rightarrow> 'f"        \<comment> \<open>\<^verbatim>\<open>a * b\<close>\<close>
  py_bool :: "'f \<Rightarrow> bool"           \<comment> \<open>truth value of a float: false exactly for zero\<close>

subsection \<open>Settings\<close>

record 'f settings =
  ROOMMATE_SPLIT_RATIO :: 'f
  MY_SPLIT_RATIO :: 'f
  ENABLE_AUTO_OPEN :: bool

subsection \<open>The two tables\<close>

text \<open>
  \<^verbatim>\<open>CURRENT_TIMESTAMP\<close> is a count of seconds; the statements of one call read the
  same second. The date columns hold the text that the extractor matched
  (\<^verbatim>\<open>MM/DD/YYYY\<close>): a column declared \<^verbatim>\<open>DATE\<close> has numeric affinity in SQLite,
  and a text that is not a numeric literal, as every text with a \<^verbatim>\<open>/\<close> in it, is stored
  and compared as text. Row ids are unbounded integers (SQLite's end at \<open>2^63 - 1\<close>).
\<close>

type_synonym timestamp = nat

record 'f bill =
  bill_id :: int                        \<comment> \<open>column \<^verbatim>\<open>id\<close>\<close>
  bill_amount :: 'f
  due_date :: string
  bill_period_start :: "string option"
  bill_period_end :: "string option"
  roommate_portion :: 'f
  my_portion :: 'f
  email_id :: string
  email_subject :: string
  email_date :: string
  pdf_path :: "string option"
  pdf_generated :: bool
  pdf_sent :: bool
  venmo_link :: "string option"
  venmo_sent :: bool
  processed_date :: timestamp
  status :: string
  bill_notes :: "string option"             \<comment> \<open>column \<^verbatim>\<open>notes\<close>\<close>

text \<open>The text of a log row's \<^verbatim>\<open>details\<close>, with the interpolated values kept.\<close>

datatype 'f details =
    Duplicate_bill_detected_details string string string
      \<comment> \<open>original email, new email, status of the original\<close>
  | New_bill_added_details 'f string
  | Status_changed_to string
  | PDF_saved_to string
  | PDF_sent_to_roommate
  | Venmo_link_generated string

record 'f log_entry =
  log_id :: int                         \<comment> \<open>column \<^verbatim>\<open>id\<close>\<close>
  log_bill_id :: "int option"
  action :: string
  details :: "'f details"
  timestamp :: timestamp

text \<open>
  The database file: both tables in rowid order, and for each the counter that
  \<^verbatim>\<open>AUTOINCREMENT\<close> keeps in \<^verbatim>\<open>sqlite_sequence\<close>.
  \<^verbatim>\<open>_ensure_database\<close> creates the empty tables.
\<close>

record 'f database =
  bills :: "'f bill list"
  processing_log :: "'f log_entry list"
  bills_seq :: int
  log_seq :: int

definition ensure_database :: "'f database" where
  "ensure_database = \<lparr>bills = [], processing_log = [], bills_seq = 0, log_seq = 0\<rparr>"

definition next_rowid :: "int \<Rightarrow> int list \<Rightarrow> int" where
  "next_rowid seq ids = fold max ids seq + 1"

subsection \<open>Connections and transactions\<close>

text \<open>
  \<^verbatim>\<open>_get_connection\<close> opens a connection and closes it in its \<^verbatim>\<open>finally\<close>
  clause; it never commits. Python's \<^verbatim>\<open>sqlite3\<close> opens a transaction before the
  first \<^verbatim>\<open>INSERT\<close> or \<^verbatim>\<open>UPDATE\<close>, and closing a connection discards what was
  not committed. A connection therefore carries two databases: the one on disk and the
  one the statements of the open transaction have produced.
\<close>

record 'f connection =
  on_disk :: "'f database"
  in_transaction :: "'f database"

definition connect :: "'f database \<Rightarrow> 'f connection" where
  "connect db = \<lparr>on_disk = db, in_transaction = db\<rparr>"

definition commit :: "'f connection \<Rightarrow> 'f connection" where
  "commit conn = conn\<lparr>on_disk := in_transaction conn\<rparr>"

definition close :: "'f connection \<Rightarrow> 'f database" where
  "close conn = on_disk conn"

text \<open>
  The storage engine can raise from any statement of a call (a locked or full database;
  a constraint hit by another writer). Every write operation commits as its last
  statement, so an exception anywhere in the call leaves the file as it was. The
  environment of one call says whether the engine raises during it, and what the clock
  shows.
\<close>

datatype sqlite_error = IntegrityError | OperationalError

datatype engine = Healthy | Failing sqlite_error

text \<open>
  An integer parameter of a statement must fit SQLite's 64-bit integers: for any other
  Python integer the binding raises \<^verbatim>\<open>OverflowError\<close> when the statement is executed.
\<close>

datatype py_exception = Sqlite sqlite_error | OverflowError

definition sqlite_int :: "int \<Rightarrow> bool" where
  "sqlite_int i = (- (2 ^ 63) \<le> i \<and> i < 2 ^ 63)"

record call_env =
  engine :: engine
  now :: timestamp

subsection \<open>\<^verbatim>\<open>_log_action\<close>\<close>

definition log_action_conn ::
  "'f connection \<Rightarrow> timestamp \<Rightarrow> int option \<Rightarrow> string \<Rightarrow> 'f details \<Rightarrow> 'f connection" where
  "log_action_conn conn t bid act det =
     (let db = in_transaction conn;
          i = next_rowid (log_seq db) (map log_id (processing_log db))
      in conn\<lparr>in_transaction := db\<lparr>
           processing_log := processing_log db @
             [\<lparr>log_id = i, log_bill_id = bid, action = act, details = det, timestamp = t\<rparr>],
           log_seq := i\<rparr>\<rparr>)"

subsection \<open>\<^verbatim>\<open>add_bill\<close>\<close>

text \<open>
  The dictionary that \<^verbatim>\<open>parse_bill_email\<close> returns, and the one that
  \<^verbatim>\<open>parse_pge_bill\<close> makes of it by adding the keys of the email.
\<close>

record 'f parsed_bill =
  info_amount :: 'f                               \<comment> \<open>key \<^verbatim>\<open>amount\<close>\<close>
  info_due_date :: string                         \<comment> \<open>key \<^verbatim>\<open>due_date\<close>\<close>
  info_bill_period :: "(string \<times> string) option"  \<comment> \<open>key \<^verbatim>\<open>bill_period\<close>\<close>
  info_raw_text :: string                         \<comment> \<open>key \<^verbatim>\<open>raw_text\<close>\<close>

record 'f bill_info = "'f parsed_bill" +
  info_email_id :: string
  info_email_subject :: string
  info_email_date :: string
  info_email_body :: string

text \<open>The message of the returned triple, with the interpolated values kept.\<close>

datatype 'f add_message =
    Duplicate_bill_detected 'f string timestamp
      \<comment> \<open>amount, due date, \<^verbatim>\<open>processed_date\<close> of the original\<close>
  | New_bill_added 'f string 'f 'f
  | Database_integrity_error
  | Error_adding_bill

text \<open>
  The \<^verbatim>\<open>INSERT\<close> runs only after the \<^verbatim>\<open>SELECT\<close> of the same connection has found no
  row with the key, so the constraint \<^verbatim>\<open>UNIQUE(bill_amount, due_date)\<close> cannot fire in
  it; a violation caused by another writer is the engine raising \<open>IntegrityError\<close>.
\<close>

definition select_existing :: "'f database \<Rightarrow> 'f \<Rightarrow> string \<Rightarrow> 'f bill option" where
  "select_existing db a d = find (\<lambda>b. bill_amount b = a \<and> due_date b = d) (bills db)"

definition insert_bill ::
  "'f connection \<Rightarrow> timestamp \<Rightarrow> 'f bill_info \<Rightarrow> 'f \<Rightarrow> 'f \<Rightarrow> 'f connection \<times> int" where
  "insert_bill conn t info rp mp =
     (let db = in_transaction conn;
          i = next_rowid (bills_seq db) (map bill_id (bills db));
          row = \<lparr>bill_id = i,
                 bill_amount = info_amount info,
                 due_date = info_due_date info,
                 bill_period_start = map_option fst (info_bill_period info),
                 bill_period_end = map_option snd (info_bill_period info),
                 roommate_portion = rp,
                 my_portion = mp,
                 email_id = info_email_id info,
                 email_subject = info_email_subject info,
                 email_date = info_email_date info,
                 pdf_path = None,
                 pdf_generated = False,
                 pdf_sent = False,
                 venmo_link = None,
                 venmo_sent = False,
                 processed_date = t,
                 status = ''pending'',
                 bill_notes = Some (''Added from email: '' @ info_email_subject info)\<rparr>
      in (conn\<lparr>in_transaction := db\<lparr>bills := bills db @ [row], bills_seq := i\<rparr>\<rparr>, i))"

definition add_bill ::
  "'f float_ops \<Rightarrow> 'f settings \<Rightarrow> call_env \<Rightarrow> 'f database \<Rightarrow> 'f bill_info
     \<Rightarrow> 'f database \<times> (bool \<times> 'f add_message \<times> int option)" where
  "add_bill ops cfg env db info =
     (let roommate = py_mul ops (info_amount info) (ROOMMATE_SPLIT_RATIO cfg);
          mine = py_mul ops (info_amount info) (MY_SPLIT_RATIO cfg)
      in case engine env of
           Failing IntegrityError \<Rightarrow> (db, (False, Database_integrity_error, None))
         | Failing OperationalError \<Rightarrow> (db, (False, Error_adding_bill, None))
         | Healthy \<Rightarrow>
             (let conn = connect db
              in case select_existing (in_transaction conn) (info_amount info) (info_due_date info) of
                   Some existing \<Rightarrow>
                     (let conn1 = log_action_conn conn (now env) (Some (bill_id existing))
                                    ''duplicate_detected''
                                    (Duplicate_bill_detected_details (email_id existing)
                                       (info_email_id info) (status existing))
                      in (close conn1,
                          (False,
                           Duplicate_bill_detected (info_amount info) (info_due_date info)
                             (processed_date existing),
                           None)))
                 | None \<Rightarrow>
                     (let (conn1, new_id) = insert_bill conn (now env) info roommate mine;
                          conn2 = log_action_conn conn1 (now env) (Some new_id) ''bill_added''
                                    (New_bill_added_details (info_amount info) (info_due_date info));
                          conn3 = commit conn2
                      in (close conn3,
                          (True,
                           New_bill_added (info_amount info) (info_due_date info) roommate mine,
                           Some new_id)))))"

subsection \<open>Reading bills\<close>

text \<open>
  The reading operations have no \<^verbatim>\<open>try\<close>: an exception of the engine reaches the
  caller.
\<close>

definition get_bill_by_id :: "call_env \<Rightarrow> 'f database \<Rightarrow> int \<Rightarrow> py_exception + 'f bill option" where
  "get_bill_by_id env db i =
     (case engine env of
        Failing e \<Rightarrow> Inl (Sqlite e)
      | Healthy \<Rightarrow>
          if sqlite_int i then Inr (find (\<lambda>b. bill_id b = i) (bills db))
          else Inl OverflowError)"

text \<open>
  \<^verbatim>\<open>ORDER BY due_date ASC\<close> compares the stored texts with SQLite's default collation
  \<^verbatim>\<open>BINARY\<close>: byte by byte, a proper prefix first. Rows that compare equal are kept
  in rowid order here (SQL leaves their order open).
\<close>

fun binary_le :: "string \<Rightarrow> string \<Rightarrow> bool" where
  "binary_le [] ys = True"
| "binary_le (x # xs) [] = False"
| "binary_le (x # xs) (y # ys) =
     ((of_char x :: nat) < of_char y \<or> (x = y \<and> binary_le xs ys))"

fun insert_by :: "('a \<Rightarrow> 'a \<Rightarrow> bool) \<Rightarrow> 'a \<Rightarrow> 'a list \<Rightarrow> 'a list" where
  "insert_by le x [] = [x]"
| "insert_by le x (y # ys) = (if le x y then x # y # ys else y # insert_by le x ys)"

definition order_by :: "('a \<Rightarrow> 'a \<Rightarrow> bool) \<Rightarrow> 'a list \<Rightarrow> 'a list" where
  "order_by le xs = foldr (insert_by le) xs []"

definition get_bills_by_status ::
  "call_env \<Rightarrow> 'f database \<Rightarrow> string \<Rightarrow> sqlite_error + 'f bill list" where
  "get_bills_by_status env db st =
     (case engine env of
        Failing e \<Rightarrow> Inl e
      | Healthy \<Rightarrow>
          Inr (order_by (\<lambda>b c. binary_le (due_date b) (due_date c))
                 (filter (\<lambda>b. status b = st) (bills db))))"

subsection \<open>Updating bills\<close>

text \<open>
  An \<^verbatim>\<open>UPDATE ... WHERE id = ?\<close> changes the rows with that id, and none when there
  is none: that is no error in SQL. SQLite does not check the foreign key of
  \<^verbatim>\<open>processing_log\<close> unless \<^verbatim>\<open>PRAGMA foreign_keys\<close> is switched on, which the
  code never does. Each operation catches every exception and returns \<^verbatim>\<open>False\<close>, the
  engine's as well as the \<^verbatim>\<open>OverflowError\<close> of an id that does not fit; nothing is
  committed then.
\<close>

definition update_where_id :: "('f bill \<Rightarrow> 'f bill) \<Rightarrow> int \<Rightarrow> 'f connection \<Rightarrow> 'f connection" where
  "update_where_id f i conn =
     (let db = in_transaction conn
      in conn\<lparr>in_transaction :=
           db\<lparr>bills := map (\<lambda>b. if bill_id b = i then f b else b) (bills db)\<rparr>\<rparr>)"

definition coalesce :: "'a option \<Rightarrow> 'a option \<Rightarrow> 'a option" where
  "coalesce x y = (case x of Some v \<Rightarrow> Some v | None \<Rightarrow> y)"

definition update_bill_status ::
  "call_env \<Rightarrow> 'f database \<Rightarrow> int \<Rightarrow> string \<Rightarrow> string option \<Rightarrow> 'f database \<times> bool" where
  "update_bill_status env db i st nt =
     (case engine env of
        Failing e \<Rightarrow> (db, False)
      | Healthy \<Rightarrow>
          if \<not> sqlite_int i then (db, False)
          else
            (let conn = connect db;
                 conn1 = update_where_id
                           (\<lambda>b. b\<lparr>status := st, bill_notes := coalesce nt (bill_notes b)\<rparr>) i conn;
                 conn2 = log_action_conn conn1 (now env) (Some i) ''status_updated''
                           (Status_changed_to st);
                 conn3 = commit conn2
             in (close conn3, True)))"

definition mark_pdf_generated ::
  "call_env \<Rightarrow> 'f database \<Rightarrow> int \<Rightarrow> string \<Rightarrow> 'f database \<times> bool" where
  "mark_pdf_generated env db i path =
     (case engine env of
        Failing e \<Rightarrow> (db, False)
      | Healthy \<Rightarrow>
          if \<not> sqlite_int i then (db, False)
          else
            (let conn = connect db;
                 conn1 = update_where_id
                           (\<lambda>b. b\<lparr>pdf_generated := True, pdf_path := Some path\<rparr>) i conn;
                 conn2 = log_action_conn conn1 (now env) (Some i) ''pdf_generated''
                           (PDF_saved_to path);
                 conn3 = commit conn2
             in (close conn3, True)))"

definition mark_pdf_sent :: "call_env \<Rightarrow> 'f database \<Rightarrow> int \<Rightarrow> 'f database \<times> bool" where
  "mark_pdf_sent env db i =
     (case engine env of
        Failing e \<Rightarrow> (db, False)
      | Healthy \<Rightarrow>
          if \<not> sqlite_int i then (db, False)
          else
            (let conn = connect db;
                 conn1 = update_where_id (\<lambda>b. b\<lparr>pdf_sent := True\<rparr>) i conn;
                 conn2 = log_action_conn conn1 (now env) (Some i) ''pdf_sent''
                           PDF_sent_to_roommate;
                 conn3 = commit conn2
             in (close conn3, True)))"

definition mark_venmo_sent ::
  "call_env \<Rightarrow> 'f database \<Rightarrow> int \<Rightarrow> string \<Rightarrow> 'f database \<times> bool" where
  "mark_venmo_sent env db i link =
     (case engine env of
        Failing e \<Rightarrow> (db, False)
      | Healthy \<Rightarrow>
          if \<not> sqlite_int i then (db, False)
          else
            (let conn = connect db;
                 conn1 = update_where_id
                           (\<lambda>b. b\<lparr>venmo_sent := True, venmo_link := Some link\<rparr>) i conn;
                 conn2 = log_action_conn conn1 (now env) (Some i) ''venmo_sent''
                           (Venmo_link_generated link);
                 conn3 = commit conn2
             in (close conn3, True)))"

subsection \<open>\<^verbatim>\<open>get_processing_log\<close>\<close>

text \<open>
  Without a filter the rows come from a left join with \<^verbatim>\<open>bills\<close> and carry two more
  columns, \<^verbatim>\<open>NULL\<close> where no bill has the row's \<^verbatim>\<open>bill_id\<close>. The test
  \<^verbatim>\<open>if bill_id:\<close> is Python's truth value of the argument: \<^verbatim>\<open>None\<close> and
  \<^verbatim>\<open>0\<close> are false. A negative \<^verbatim>\<open>LIMIT\<close> is no limit in SQLite. The filtered
  query binds the bill id and the limit, the other one the limit only.
\<close>

datatype 'f log_row =
    Log_row "'f log_entry"
  | Joined_row "'f log_entry" "'f option" "string option"

definition truthy_id :: "int option \<Rightarrow> bool" where
  "truthy_id x = (case x of None \<Rightarrow> False | Some n \<Rightarrow> n \<noteq> 0)"

definition sql_limit :: "int \<Rightarrow> 'a list \<Rightarrow> 'a list" where
  "sql_limit n xs = (if n < 0 then xs else take (nat n) xs)"

definition left_join_bills :: "'f database \<Rightarrow> 'f log_entry \<Rightarrow> 'f log_row list" where
  "left_join_bills db e =
     (case filter (\<lambda>b. Some (bill_id b) = log_bill_id e) (bills db) of
        [] \<Rightarrow> [Joined_row e None None]
      | bs \<Rightarrow> map (\<lambda>b. Joined_row e (Some (bill_amount b)) (Some (due_date b))) bs)"

definition newest_first :: "'f log_entry list \<Rightarrow> 'f log_entry list" where
  "newest_first es = order_by (\<lambda>a b. timestamp b \<le> timestamp a) es"

definition fits :: "int option \<Rightarrow> bool" where
  "fits x = (case x of None \<Rightarrow> True | Some n \<Rightarrow> sqlite_int n)"

definition get_processing_log ::
  "call_env \<Rightarrow> 'f database \<Rightarrow> int option \<Rightarrow> int \<Rightarrow> py_exception + 'f log_row list" where
  "get_processing_log env db bid limit =
     (case engine env of
        Failing e \<Rightarrow> Inl (Sqlite e)
      | Healthy \<Rightarrow>
          (if truthy_id bid
           then (if fits bid \<and> sqlite_int limit
                 then Inr (sql_limit limit
                        (map Log_row
                           (newest_first (filter (\<lambda>e. log_bill_id e = bid) (processing_log db)))))
                 else Inl OverflowError)
           else (if sqlite_int limit
                 then Inr (sql_limit limit
                        (concat (map (left_join_bills db) (newest_first (processing_log db)))))
                 else Inl OverflowError)))"

subsection \<open>Regular expressions of \<^verbatim>\<open>PGEPatterns\<close>\<close>

text \<open>
  Email text is a string of code points below 256. Every pattern of the source is a
  sequence of single-character items, each with a greedy quantifier, and of group
  brackets; all are searched with \<^verbatim>\<open>re.IGNORECASE\<close>. On code points below 256,
  \<^verbatim>\<open>\d\<close> is the ten ASCII digits, \<^verbatim>\<open>\s\<close> is the set below, and ignoring case
  identifies an ASCII letter of a pattern with its other case only.
\<close>

datatype charset = Lit char | Space | Digit | Colon_or_space

definition is_space :: "char \<Rightarrow> bool" where
  "is_space c = ((of_char c :: nat) \<in> {9, 10, 11, 12, 13, 28, 29, 30, 31, 32, 133, 160})"

definition is_digit :: "char \<Rightarrow> bool" where
  "is_digit c = (48 \<le> (of_char c :: nat) \<and> (of_char c :: nat) \<le> 57)"

definition lower :: "char \<Rightarrow> char" where
  "lower c = (if 65 \<le> (of_char c :: nat) \<and> (of_char c :: nat) \<le> 90
              then char_of ((of_char c :: nat) + 32) else c)"

fun in_charset :: "charset \<Rightarrow> char \<Rightarrow> bool" where
  "in_charset (Lit c) x = (lower x = lower c)"
| "in_charset Space x = is_space x"
| "in_charset Digit x = is_digit x"
| "in_charset Colon_or_space x = (x = CHR '':'' \<or> is_space x)"

datatype token =
    Once charset          \<comment> \<open>one character\<close>
  | Star charset          \<comment> \<open>\<^verbatim>\<open>*\<close>\<close>
  | Plus charset          \<comment> \<open>\<^verbatim>\<open>+\<close>\<close>
  | Times nat charset     \<comment> \<open>\<^verbatim>\<open>{n}\<close>\<close>
  | Open                  \<comment> \<open>\<^verbatim>\<open>(\<close>\<close>
  | Close                 \<comment> \<open>\<^verbatim>\<open>)\<close>\<close>

text \<open>
  The matcher tries, for each item, the longest run first and gives characters back one
  at a time while the rest of the pattern fails, as the backtracking matcher of
  \<^verbatim>\<open>re\<close> does. A match is the list of the texts its tokens consumed.
\<close>

fun backtrack ::
  "nat \<Rightarrow> nat \<Rightarrow> (string \<Rightarrow> string list option) \<Rightarrow> string \<Rightarrow> string list option" where
  "backtrack lo 0 rest s = map_option ((#) (take lo s)) (rest (drop lo s))"
| "backtrack lo (Suc j) rest s =
     (case rest (drop (lo + Suc j) s) of
        Some r \<Rightarrow> Some (take (lo + Suc j) s # r)
      | None \<Rightarrow> backtrack lo j rest s)"

definition repeat ::
  "charset \<Rightarrow> nat \<Rightarrow> nat option \<Rightarrow> (string \<Rightarrow> string list option) \<Rightarrow> string \<Rightarrow> string list option" where
  "repeat cs lo hi rest s =
     (let run = length (takeWhile (in_charset cs) s);
          most = (case hi of None \<Rightarrow> run | Some h \<Rightarrow> min h run)
      in if most < lo then None else backtrack lo (most - lo) rest s)"

primrec match_here :: "token list \<Rightarrow> string \<Rightarrow> string list option" where
  "match_here [] = (\<lambda>s. Some [])"
| "match_here (t # ts) =
     (case t of
        Once cs \<Rightarrow> repeat cs 1 (Some 1) (match_here ts)
      | Star cs \<Rightarrow> repeat cs 0 None (match_here ts)
      | Plus cs \<Rightarrow> repeat cs 1 None (match_here ts)
      | Times n cs \<Rightarrow> repeat cs n (Some n) (match_here ts)
      | Open \<Rightarrow> (\<lambda>s. map_option ((#) []) (match_here ts s))
      | Close \<Rightarrow> (\<lambda>s. map_option ((#) []) (match_here ts s)))"

fun captures :: "token list \<Rightarrow> string list \<Rightarrow> string option \<Rightarrow> string list" where
  "captures (Open # ts) (c # cs) cur = captures ts cs (Some [])"
| "captures (Close # ts) (c # cs) (Some g) = g # captures ts cs None"
| "captures (Close # ts) (c # cs) None = captures ts cs None"
| "captures (t # ts) (c # cs) (Some g) = captures ts cs (Some (g @ c))"
| "captures (t # ts) (c # cs) None = captures ts cs None"
| "captures ts cs cur = []"

text \<open>\<^verbatim>\<open>re.search\<close>: the first position where the pattern matches; the groups of the match.\<close>

fun re_search :: "token list \<Rightarrow> string \<Rightarrow> string list option" where
  "re_search p [] = map_option (\<lambda>m. captures p m None) (match_here p [])"
| "re_search p (c # s) =
     (case match_here p (c # s) of
        Some m \<Rightarrow> Some (captures p m None)
      | None \<Rightarrow> re_search p s)"

text \<open>
  The fewest characters a token consumes, and from them the least length of each group
  of a pattern (computed along the pattern as \<open>captures\<close> collects the groups).
\<close>

fun least :: "token \<Rightarrow> nat" where
  "least (Once cs) = 1"
| "least (Star cs) = 0"
| "least (Plus cs) = 1"
| "least (Times n cs) = n"
| "least Open = 0"
| "least Close = 0"

fun least_groups :: "token list \<Rightarrow> nat option \<Rightarrow> nat list" where
  "least_groups (Open # ts) cur = least_groups ts (Some 0)"
| "least_groups (Close # ts) (Some n) = n # least_groups ts None"
| "least_groups (Close # ts) None = least_groups ts None"
| "least_groups (t # ts) (Some n) = least_groups ts (Some (n + least t))"
| "least_groups (t # ts) None = least_groups ts None"
| "least_groups [] cur = []"

definition lits :: "string \<Rightarrow> token list" where
  "lits s = map (\<lambda>c. Once (Lit c)) s"

definition amount_group :: "token list" where
  "amount_group = [Open, Plus Digit, Once (Lit CHR ''.''), Times 2 Digit, Close]"

definition date_tokens :: "token list" where
  "date_tokens = [Times 2 Digit, Once (Lit CHR ''/''), Times 2 Digit, Once (Lit CHR ''/''),
                  Times 4 Digit]"

definition date_group :: "token list" where
  "date_group = [Open] @ date_tokens @ [Close]"

definition AMOUNT_PATTERNS :: "token list list" where
  "AMOUNT_PATTERNS =
     [lits ''Statement balance:'' @ [Star Space] @ lits ''$'' @ amount_group,
      lits ''Amount Due'' @ [Star Colon_or_space] @ lits ''$'' @ amount_group,
      lits ''Total Amount Due'' @ [Star Colon_or_space] @ lits ''$'' @ amount_group,
      lits ''Current charges'' @ [Star Colon_or_space] @ lits ''$'' @ amount_group,
      lits ''**$'' @ amount_group @ lits ''**'',
      lits ''<strong>$'' @ amount_group @ lits ''</strong>'',
      lits ''$'' @ amount_group @ lits ''</strong>'']"

definition DATE_PATTERNS :: "token list list" where
  "DATE_PATTERNS =
     [lits ''Payment due date:'' @ [Star Space] @ date_group,
      lits ''Due Date'' @ [Star Colon_or_space] @ date_group,
      lits ''Due by'' @ [Star Colon_or_space] @ date_group,
      lits ''**'' @ date_group @ [Star Space] @ lits ''**'',
      lits ''<strong>'' @ date_group @ [Star Space] @ lits ''</strong>'',
      date_group @ [Star Space] @ lits ''</strong>'']"

definition PERIOD_PATTERNS :: "token list list" where
  "PERIOD_PATTERNS =
     [lits ''Bill period'' @ [Star Colon_or_space] @ date_group @ [Star Space] @ lits ''-''
        @ [Star Space] @ date_group,
      lits ''Service period'' @ [Star Colon_or_space] @ date_group @ [Star Space] @ lits ''to''
        @ [Star Space] @ date_group]"

subsection \<open>\<^verbatim>\<open>PGEPatterns.parse_bill_email\<close>\<close>

text \<open>The loop \<^verbatim>\<open>for pattern in ...: match = re.search(...); if match: return ...\<close>.\<close>

fun first_match :: "token list list \<Rightarrow> string \<Rightarrow> string list option" where
  "first_match [] text = None"
| "first_match (p # ps) text =
     (case re_search p text of
        Some groups \<Rightarrow> Some groups
      | None \<Rightarrow> first_match ps text)"

text \<open>Every pattern has the groups that the code reads, so the other cases do not arise.\<close>

definition extract_amount :: "'f float_ops \<Rightarrow> string \<Rightarrow> 'f option" where
  "extract_amount ops text =
     (case first_match AMOUNT_PATTERNS text of
        Some (g # gs) \<Rightarrow> Some (py_float ops g)
      | _ \<Rightarrow> None)"

definition extract_due_date :: "string \<Rightarrow> string option" where
  "extract_due_date text =
     (case first_match DATE_PATTERNS text of
        Some (g # gs) \<Rightarrow> Some g
      | _ \<Rightarrow> None)"

definition extract_bill_period :: "string \<Rightarrow> (string \<times> string) option" where
  "extract_bill_period text =
     (case first_match PERIOD_PATTERNS text of
        Some (g1 # g2 # gs) \<Rightarrow> Some (g1, g2)
      | _ \<Rightarrow> None)"

datatype value_error = Could_not_extract_bill_amount | Could_not_extract_due_date

text \<open>
  \<^verbatim>\<open>if not result['amount']\<close> is true for \<^verbatim>\<open>None\<close> and for a float that is zero;
  \<^verbatim>\<open>if not result['due_date']\<close> is true for \<^verbatim>\<open>None\<close> and for the empty string.
\<close>

definition parse_bill_email :: "'f float_ops \<Rightarrow> string \<Rightarrow> value_error + 'f parsed_bill" where
  "parse_bill_email ops text =
     (let a = extract_amount ops text;
          d = extract_due_date text;
          p = extract_bill_period text
      in case a of
           None \<Rightarrow> Inl Could_not_extract_bill_amount
         | Some av \<Rightarrow>
             if \<not> py_bool ops av then Inl Could_not_extract_bill_amount
             else (case d of
                     None \<Rightarrow> Inl Could_not_extract_due_date
                   | Some dv \<Rightarrow>
                       if dv = [] then Inl Could_not_extract_due_date
                       else Inr \<lparr>info_amount = av, info_due_date = dv,
                                 info_bill_period = p, info_raw_text = text\<rparr>))"

subsection \<open>\<^verbatim>\<open>GmailParser.parse_pge_bill\<close>\<close>

text \<open>
  The mail client is outside the program. \<^verbatim>\<open>get_email_content\<close> returns the email,
  returns \<^verbatim>\<open>None\<close> when it has caught an \<^verbatim>\<open>HttpError\<close>, or lets any other
  exception through.
\<close>

datatype 'a outcome = Returns 'a | Raises

record email =
  subject :: string
  date :: string
  body :: string

type_synonym gmail = "string \<Rightarrow> email option outcome"

definition parse_pge_bill ::
  "'f float_ops \<Rightarrow> gmail \<Rightarrow> string \<Rightarrow> 'f bill_info option outcome" where
  "parse_pge_bill ops get_email_content message_id =
     (case get_email_content message_id of
        Raises \<Rightarrow> Raises
      | Returns None \<Rightarrow> Returns None
      | Returns (Some em) \<Rightarrow>
          (case parse_bill_email ops (body em) of
             Inl err \<Rightarrow> Returns None
           | Inr parsed \<Rightarrow>
               Returns (Some (parsed_bill.extend parsed
                 (bill_info.fields message_id (subject em) (date em) (body em))))))"

subsection \<open>\<^verbatim>\<open>BillProcessor.process_latest_bills\<close>\<close>

record 'f new_bill =
  new_bill_id :: "int option"
  new_amount :: 'f
  new_due_date :: string
  new_roommate_portion :: 'f
  new_email_subject :: string

record 'f duplicate_bill =
  dup_amount :: 'f
  dup_due_date :: string
  dup_email_subject :: string

datatype error_message = Failed_to_parse_email string | Error_processing string

record 'f results =
  processed :: nat
  duplicates :: nat
  errors :: nat
  new_bills :: "'f new_bill list"
  duplicate_bills :: "'f duplicate_bill list"
  error_messages :: "error_message list"

definition initial_results :: "'f results" where
  "initial_results = \<lparr>processed = 0, duplicates = 0, errors = 0, new_bills = [],
                        duplicate_bills = [], error_messages = []\<rparr>"

text \<open>
  The body of the loop for one message. \<open>env\<close> is the environment of the call of
  \<^verbatim>\<open>add_bill\<close> that the message leads to, if it leads to one.
\<close>

definition process_message ::
  "'f float_ops \<Rightarrow> 'f settings \<Rightarrow> gmail \<Rightarrow> call_env \<Rightarrow> 'f database \<Rightarrow> 'f results \<Rightarrow> string
     \<Rightarrow> 'f database \<times> 'f results" where
  "process_message ops cfg get_email_content env db res message_id =
     (case parse_pge_bill ops get_email_content message_id of
        Raises \<Rightarrow>
          (db, res\<lparr>errors := errors res + 1,
                  error_messages := error_messages res @ [Error_processing message_id]\<rparr>)
      | Returns None \<Rightarrow>
          (db, res\<lparr>errors := errors res + 1,
                  error_messages := error_messages res @ [Failed_to_parse_email message_id]\<rparr>)
      | Returns (Some info) \<Rightarrow>
          (case add_bill ops cfg env db info of
             (db1, (success, message_text, new_id)) \<Rightarrow>
               if success
               then (db1, res\<lparr>processed := processed res + 1,
                              new_bills := new_bills res @
                                [\<lparr>new_bill_id = new_id,
                                  new_amount = info_amount info,
                                  new_due_date = info_due_date info,
                                  new_roommate_portion =
                                    py_mul ops (info_amount info) (ROOMMATE_SPLIT_RATIO cfg),
                                  new_email_subject = info_email_subject info\<rparr>]\<rparr>)
               else (db1, res\<lparr>duplicates := duplicates res + 1,
                              duplicate_bills := duplicate_bills res @
                                [\<lparr>dup_amount = info_amount info,
                                  dup_due_date = info_due_date info,
                                  dup_email_subject = info_email_subject info\<rparr>]\<rparr>)))"

text \<open>
  The loop \<^verbatim>\<open>for i, message in enumerate(messages, 1)\<close>; \<open>envs i\<close> is the environment
  of the \<open>i\<close>-th message.
\<close>

fun process_messages ::
  "'f float_ops \<Rightarrow> 'f settings \<Rightarrow> gmail \<Rightarrow> (nat \<Rightarrow> call_env) \<Rightarrow> nat \<Rightarrow> 'f database
     \<Rightarrow> 'f results \<Rightarrow> string list \<Rightarrow> 'f database \<times> 'f results" where
  "process_messages ops cfg get_email_content envs i db res [] = (db, res)"
| "process_messages ops cfg get_email_content envs i db res (m # ms) =
     (case process_message ops cfg get_email_content (envs i) db res m of
        (db1, res1) \<Rightarrow> process_messages ops cfg get_email_content envs (Suc i) db1 res1 ms)"

definition process_latest_bills ::
  "'f float_ops \<Rightarrow> 'f settings \<Rightarrow> gmail \<Rightarrow> (nat \<Rightarrow> call_env) \<Rightarrow> 'f database \<Rightarrow> string list
     \<Rightarrow> 'f database \<times> 'f results" where
  "process_latest_bills ops cfg get_email_content envs db messages =
     (if messages = [] then (db, initial_results)
      else process_messages ops cfg get_email_content envs 1 db initial_results messages)"

subsection \<open>The per-bill loop of the automation script\<close>

text \<open>
  Step 3 of \<^verbatim>\<open>main\<close> in the script of \<^verbatim>\<open>create_automation_script\<close>. The
  collaborators are parameters: the mail client, the PDF generator and the Venmo link
  generator (both catch their own exceptions and report failure in the value they
  return), and the email notifier.
\<close>

record venmo_result =
  success :: bool
  venmo_url :: string

record 'f collaborators =
  get_email_content :: gmail
  generate_bill_pdf :: "'f bill \<Rightarrow> string \<Rightarrow> string option"
  process_bill_venmo_request :: "'f bill \<Rightarrow> bool \<Rightarrow> venmo_result"
  send_bill_notification :: "'f bill \<Rightarrow> string option \<Rightarrow> venmo_result \<Rightarrow> bool outcome"

text \<open>The environments of the four calls of the ledger that the body can make.\<close>

record step_envs =
  env_get_bill :: call_env
  env_mark_pdf_generated :: call_env
  env_mark_pdf_sent :: call_env
  env_mark_venmo_sent :: call_env

record 'f processed_bill =
  pb_bill_id :: int
  pb_bill_amount :: 'f
  pb_due_date :: string
  pb_roommate_portion :: 'f
  pb_my_portion :: 'f

text \<open>
  \<open>Next_bill\<close> is the statement \<^verbatim>\<open>continue\<close>, reached directly or through the
  \<^verbatim>\<open>except\<close> clause of the loop body. In all three steps \<open>bill\<close> is the dictionary
  that \<^verbatim>\<open>get_bill_by_id\<close> returned at the top of the body.
\<close>

datatype 'f flow = Next_bill "'f database" | Go_on "'f database"

definition generate_pdf_step ::
  "'f collaborators \<Rightarrow> step_envs \<Rightarrow> 'f database \<Rightarrow> int \<Rightarrow> 'f bill \<Rightarrow> 'f flow" where
  "generate_pdf_step coll envs db i bill =
     (if \<not> pdf_generated bill
      then (case get_email_content coll (email_id bill) of
              Raises \<Rightarrow> Next_bill db
            | Returns None \<Rightarrow> Next_bill db
            | Returns (Some em) \<Rightarrow>
                (case generate_bill_pdf coll bill (body em) of
                   None \<Rightarrow> Next_bill db
                 | Some path \<Rightarrow>
                     if path = [] then Next_bill db
                     else Go_on (fst (mark_pdf_generated (env_mark_pdf_generated envs) db i path))))
      else Go_on db)"

definition send_notification_step ::
  "'f collaborators \<Rightarrow> step_envs \<Rightarrow> 'f database \<Rightarrow> int \<Rightarrow> 'f bill \<Rightarrow> 'f flow" where
  "send_notification_step coll envs db i bill =
     (if \<not> pdf_sent bill \<and> pdf_generated bill
      then (let venmo = process_bill_venmo_request coll bill False
            in if success venmo
               then (case send_bill_notification coll bill (pdf_path bill) venmo of
                       Raises \<Rightarrow> Next_bill db
                     | Returns ok \<Rightarrow>
                         if ok then Go_on (fst (mark_pdf_sent (env_mark_pdf_sent envs) db i))
                         else Go_on db)
               else Go_on db)
      else Go_on db)"

definition venmo_request_step ::
  "'f collaborators \<Rightarrow> 'f settings \<Rightarrow> step_envs \<Rightarrow> 'f database \<Rightarrow> int \<Rightarrow> 'f bill
     \<Rightarrow> 'f database \<times> 'f processed_bill option" where
  "venmo_request_step coll cfg envs db i bill =
     (let venmo = process_bill_venmo_request coll bill (ENABLE_AUTO_OPEN cfg)
      in if success venmo
         then (fst (mark_venmo_sent (env_mark_venmo_sent envs) db i (venmo_url venmo)),
               Some \<lparr>pb_bill_id = i,
                     pb_bill_amount = bill_amount bill,
                     pb_due_date = due_date bill,
                     pb_roommate_portion = roommate_portion bill,
                     pb_my_portion = my_portion bill\<rparr>)
         else (db, None))"

definition process_new_bill ::
  "'f collaborators \<Rightarrow> 'f settings \<Rightarrow> step_envs \<Rightarrow> 'f database \<Rightarrow> int
     \<Rightarrow> 'f database \<times> 'f processed_bill option" where
  "process_new_bill coll cfg envs db i =
     (case get_bill_by_id (env_get_bill envs) db i of
        Inl e \<Rightarrow> (db, None)
      | Inr None \<Rightarrow> (db, None)
      | Inr (Some bill) \<Rightarrow>
          (case generate_pdf_step coll envs db i bill of
             Next_bill db1 \<Rightarrow> (db1, None)
           | Go_on db1 \<Rightarrow>
               (case send_notification_step coll envs db1 i bill of
                  Next_bill db2 \<Rightarrow> (db2, None)
                | Go_on db2 \<Rightarrow> venmo_request_step coll cfg envs db2 i bill)))"

text \<open>The loop \<^verbatim>\<open>for bill_info in results['new_bills']\<close>, collecting \<^verbatim>\<open>processed_bills\<close>.\<close>

fun process_new_bills ::
  "'f collaborators \<Rightarrow> 'f settings \<Rightarrow> (int \<Rightarrow> step_envs) \<Rightarrow> 'f database \<Rightarrow> int list
     \<Rightarrow> 'f database \<times> 'f processed_bill list" where
  "process_new_bills coll cfg envs db [] = (db, [])"
| "process_new_bills coll cfg envs db (i # rest) =
     (case process_new_bill coll cfg (envs i) db i of
        (db1, done) \<Rightarrow>
          (case process_new_bills coll cfg envs db1 rest of
             (db2, dones) \<Rightarrow> (db2, (case done of None \<Rightarrow> [] | Some pb \<Rightarrow> [pb]) @ dones)))"

subsection \<open>An interpretation of the float operations without rounding\<close>

text \<open>
  To run the definitions on concrete inputs, amounts are read as the rational numbers
  that their decimal literals denote and multiplied exactly. A binary64 float is zero
  exactly when the literal it was read from denotes zero, so the truth value of a parsed
  amount is the one Python computes.
\<close>

definition digits_value :: "string \<Rightarrow> nat" where
  "digits_value s = foldl (\<lambda>n c. 10 * n + ((of_char c :: nat) - 48)) 0 s"

definition decimal_value :: "string \<Rightarrow> rat" where
  "decimal_value s =
     (let whole = takeWhile (\<lambda>c. c \<noteq> CHR ''.'') s;
          cents = drop (length whole + 1) s
      in of_nat (digits_value whole) + of_nat (digits_value cents) / 10 ^ length cents)"

definition exact_ops :: "rat float_ops" where
  "exact_ops = \<lparr>py_float = decimal_value, py_mul = (\<lambda>a b. a * b), py_bool = (\<lambda>a. a \<noteq> 0)\<rparr>"

subsection \<open>The binary64 interpretation of the float operations\<close>

text \<open>
  A finite double is a rational number, and each float operation of the code returns the
  exact result rounded to the nearest double, ties to the even significand:
  \<^verbatim>\<open>float(s)\<close> rounds the number the literal denotes, \<^verbatim>\<open>a * b\<close> rounds the product.
  \<open>ilog2 x\<close> is the exponent \<open>e\<close> with \<open>2^e \<le> x < 2^(e+1)\<close>; the doubles around \<open>x\<close>
  are the multiples of \<open>2^(e-52)\<close>, and of \<open>2^(-1074)\<close> in the subnormal range. Results
  of magnitude \<open>2^1024\<close> and more, where Python has \<^verbatim>\<open>inf\<close>, are outside this
  interpretation; no statement below reaches them.
\<close>

definition round_even :: "rat \<Rightarrow> int" where
  "round_even q =
     (let f = \<lfloor>q\<rfloor>; d = q - of_int f
      in if d < 1 / 2 then f else if 1 / 2 < d then f + 1 else if even f then f else f + 1)"

definition ilog2 :: "rat \<Rightarrow> int" where
  "ilog2 x =
     (case quotient_of x of
        (p, q) \<Rightarrow> let e = bitlen p - bitlen q in if 2 powi e \<le> x then e else e - 1)"

definition binary64 :: "rat \<Rightarrow> rat" where
  "binary64 x =
     (if x = 0 then 0
      else let e = max (ilog2 \<bar>x\<bar>) (- 1022);
               u = 2 powi (e - 52)
           in sgn x * of_int (round_even (\<bar>x\<bar> / u)) * u)"

definition binary64_ops :: "rat float_ops" where
  "binary64_ops = \<lparr>py_float = (\<lambda>s. binary64 (decimal_value s)),
                    py_mul = (\<lambda>a b. binary64 (a * b)),
                    py_bool = (\<lambda>a. a \<noteq> 0)\<rparr>"

subsection \<open>Sample inputs\<close>

text \<open>The ratios are the defaults of \<^verbatim>\<open>config/settings.py\<close>.\<close>

definition default_settings :: "rat settings" where
  "default_settings = \<lparr>ROOMMATE_SPLIT_RATIO = 333333 / 1000000,
                         MY_SPLIT_RATIO = 666667 / 1000000,
                         ENABLE_AUTO_OPEN = True\<rparr>"

text \<open>The same defaults as the doubles that \<^verbatim>\<open>float('0.333333')\<close> and \<^verbatim>\<open>float('0.666667')\<close> are.\<close>

definition binary64_settings :: "rat settings" where
  "binary64_settings = \<lparr>ROOMMATE_SPLIT_RATIO = binary64 (333333 / 1000000),
                          MY_SPLIT_RATIO = binary64 (666667 / 1000000),
                          ENABLE_AUTO_OPEN = True\<rparr>"

definition healthy :: "timestamp \<Rightarrow> call_env" where
  "healthy t = \<lparr>engine = Healthy, now = t\<rparr>"

definition failing :: "sqlite_error \<Rightarrow> timestamp \<Rightarrow> call_env" where
  "failing e t = \<lparr>engine = Failing e, now = t\<rparr>"

definition draft :: "rat \<Rightarrow> string \<Rightarrow> string \<Rightarrow> rat bill_info" where
  "draft a d m = \<lparr>info_amount = a, info_due_date = d, info_bill_period = None,
                   info_raw_text = [], info_email_id = m,
                   info_email_subject = ''Your PG&E Energy Statement'',
                   info_email_date = [], info_email_body = []\<rparr>"

text \<open>The ledger after one bill of 288.15 due 08/08/2025 was added at time 100.\<close>

definition one_bill :: "rat database" where
  "one_bill = fst (add_bill exact_ops default_settings (healthy 100) ensure_database
                     (draft (28815 / 100) ''08/08/2025'' ''msg-1''))"

text \<open>Two bills, the one due in December 2024 and the one due in January 2025.\<close>

definition two_years :: "rat database" where
  "two_years =
     fst (add_bill exact_ops default_settings (healthy 200)
            (fst (add_bill exact_ops default_settings (healthy 100) ensure_database
                    (draft (12050 / 100) ''12/31/2024'' ''msg-1'')))
            (draft (9820 / 100) ''01/15/2025'' ''msg-2''))"

text \<open>The same ledger after a status update for the id 0, which no bill has.\<close>

definition zero_logged :: "rat database" where
  "zero_logged = fst (update_bill_status (healthy 150) one_bill 0 ''completed'' None)"

definition plain_email :: email where
  "plain_email = \<lparr>subject = ''Your PG&E Energy Statement'', date = ''Tue, 22 Jul 2025'',
                   body = ''Statement balance: $288.15  Payment due date: 08/08/2025''\<rparr>"

definition zero_email :: email where
  "zero_email = \<lparr>subject = ''Your PG&E Energy Statement'', date = ''Tue, 22 Jul 2025'',
                  body = ''Amount Due: $0.00 Due Date: 01/15/2026''\<rparr>"

definition mailbox :: gmail where
  "mailbox m = (if m = ''msg-1'' then Returns (Some plain_email)
                else if m = ''msg-2'' then Returns (Some zero_email)
                else if m = ''msg-3'' then Raises
                else Returns None)"

text \<open>Collaborators that succeed on every call, and a storage engine that never raises.\<close>

definition obliging :: "rat collaborators" where
  "obliging = \<lparr>get_email_content = mailbox,
                generate_bill_pdf = (\<lambda>bill text. Some ''data/pdfs/08-08-2025-pge-bill.pdf''),
                process_bill_venmo_request =
                  (\<lambda>bill auto_open. \<lparr>success = True, venmo_url = ''venmo://paycharge''\<rparr>),
                send_bill_notification = (\<lambda>bill path venmo. Returns True)\<rparr>"

definition all_healthy :: "timestamp \<Rightarrow> step_envs" where
  "all_healthy t = \<lparr>env_get_bill = healthy t, env_mark_pdf_generated = healthy t,
                     env_mark_pdf_sent = healthy t, env_mark_venmo_sent = healthy t\<rparr>"

section \<open>Properties\<close>

subsection \<open>The ledger: writing\<close>


lemma bills_log_action_conn [simp]:
  "bills (in_transaction (log_action_conn conn t bid act det)) = bills (in_transaction conn)"
  by (simp add: log_action_conn_def Let_def)


lemma written_database:
  "close (commit (log_action_conn (update_where_id f i (connect db)) t bid act det)) =
     in_transaction (log_action_conn (update_where_id f i (connect db)) t bid act det)"
  by (simp add: close_def commit_def)

lemma bills_update_where_id [simp]:
  "bills (in_transaction (update_where_id f i (connect db))) =
     map (\<lambda>b. if bill_id b = i then f b else b) (bills db)"
  by (simp add: update_where_id_def connect_def Let_def)

lemma log_update_where_id [simp]:
  "processing_log (in_transaction (update_where_id f i (connect db))) = processing_log db"
  "log_seq (in_transaction (update_where_id f i (connect db))) = log_seq db"
  by (simp_all add: update_where_id_def connect_def Let_def)

lemma on_disk_log_action_conn [simp]:
  "on_disk (log_action_conn conn t bid act det) = on_disk conn"
  by (simp add: log_action_conn_def Let_def)

lemma add_bill_existing:
  assumes "engine env = Healthy"
    and "select_existing db (info_amount info) (info_due_date info) = Some b"
  shows "add_bill ops cfg env db info =
           (db, (False,
                 Duplicate_bill_detected (info_amount info) (info_due_date info) (processed_date b),
                 None))"
  using assms by (simp add: add_bill_def Let_def connect_def close_def)

lemma add_bill_absent:
  assumes "engine env = Healthy"
    and "select_existing db (info_amount info) (info_due_date info) = None"
  shows "\<exists>db' b. add_bill ops cfg env db info =
           (db', (True,
                  New_bill_added (info_amount info) (info_due_date info)
                    (py_mul ops (info_amount info) (ROOMMATE_SPLIT_RATIO cfg))
                    (py_mul ops (info_amount info) (MY_SPLIT_RATIO cfg)),
                  Some (bill_id b)))
         \<and> bills db' = bills db @ [b]
         \<and> bill_amount b = info_amount info \<and> due_date b = info_due_date info
         \<and> processed_date b = now env \<and> status b = ''pending''
         \<and> \<not> pdf_generated b \<and> \<not> pdf_sent b \<and> \<not> venmo_sent b
         \<and> roommate_portion b = py_mul ops (info_amount info) (ROOMMATE_SPLIT_RATIO cfg)
         \<and> my_portion b = py_mul ops (info_amount info) (MY_SPLIT_RATIO cfg)
         \<and> bill_id b = next_rowid (bills_seq db) (map bill_id (bills db))
         \<and> map log_bill_id (processing_log db') = map log_bill_id (processing_log db) @ [Some (bill_id b)]
         \<and> map action (processing_log db') = map action (processing_log db) @ [''bill_added'']"
  using assms
  by (simp add: add_bill_def Let_def connect_def close_def commit_def insert_bill_def
      log_action_conn_def)

lemma find_absent_append:
  "\<forall>x\<in>set xs. \<not> P x \<Longrightarrow> P y \<Longrightarrow> find P (xs @ [y]) = Some y"
  by (induction xs) auto

text \<open>
  C1. Two calls of \<open>add_bill\<close> with drafts of the same amount and due date, on a ledger
  that holds no bill with that key and with a storage engine that does not raise: the
  ledger then holds exactly one bill with the key, the one the first call appended and
  whose id it returned, and the second call returns the duplicate result (\<open>False\<close>, no
  id) whose message carries the \<^verbatim>\<open>processed_date\<close> of that bill.
\<close>

theorem add_bill_twice:
  assumes h1: "engine env1 = Healthy" and h2: "engine env2 = Healthy"
    and absent: "\<forall>b\<in>set (bills db). \<not> (bill_amount b = info_amount d1 \<and> due_date b = info_due_date d1)"
    and same: "info_amount d2 = info_amount d1 \<and> info_due_date d2 = info_due_date d1"
    and first: "add_bill ops cfg env1 db d1 = (db1, r1)"
    and second: "add_bill ops cfg env2 db1 d2 = (db2, r2)"
  shows "\<exists>b. bills db2 = bills db @ [b]
           \<and> filter (\<lambda>x. bill_amount x = info_amount d1 \<and> due_date x = info_due_date d1) (bills db2) = [b]
           \<and> fst r1 \<and> snd (snd r1) = Some (bill_id b)
           \<and> processed_date b = now env1
           \<and> r2 = (False,
                   Duplicate_bill_detected (info_amount d2) (info_due_date d2) (processed_date b),
                   None)"
proof -
  from absent have none: "select_existing db (info_amount d1) (info_due_date d1) = None"
    by (simp add: select_existing_def find_None_iff)
  from add_bill_absent [OF h1 none, of ops cfg]
  obtain dbx b where eq: "add_bill ops cfg env1 db d1 =
        (dbx, (True, New_bill_added (info_amount d1) (info_due_date d1)
                 (py_mul ops (info_amount d1) (ROOMMATE_SPLIT_RATIO cfg))
                 (py_mul ops (info_amount d1) (MY_SPLIT_RATIO cfg)), Some (bill_id b)))"
    and billsx: "bills dbx = bills db @ [b]"
    and key: "bill_amount b = info_amount d1" "due_date b = info_due_date d1"
    and pd: "processed_date b = now env1"
    by blast
  from eq first have r1: "fst r1" "snd (snd r1) = Some (bill_id b)" and dbx: "dbx = db1"
    by auto
  from billsx dbx have bills1: "bills db1 = bills db @ [b]"
    by simp
  from absent key have some: "select_existing db1 (info_amount d2) (info_due_date d2) = Some b"
    using same by (simp add: select_existing_def bills1 find_absent_append)
  from add_bill_existing [OF h2 some, of ops cfg] second
  have db2: "db2 = db1"
    and r2: "r2 = (False, Duplicate_bill_detected (info_amount d2) (info_due_date d2)
                     (processed_date b), None)"
    by simp_all
  from absent have "filter (\<lambda>x. bill_amount x = info_amount d1 \<and> due_date x = info_due_date d1)
                      (bills db) = []"
    by (simp add: filter_empty_conv)
  with key have "filter (\<lambda>x. bill_amount x = info_amount d1 \<and> due_date x = info_due_date d1)
                   (bills db2) = [b]"
    by (simp add: db2 bills1)
  with r1 r2 pd show ?thesis
    by (auto simp: db2 bills1)
qed

text \<open>
  The theorem at work: the bill of 288.15 due 08/08/2025 is added to the empty ledger at
  time 100, and a second draft with the same key comes from another email at time 300.
\<close>

theorem add_bill_twice_witness:
  "\<exists>b. bills (fst (add_bill exact_ops default_settings (healthy 300) one_bill
                     (draft (28815 / 100) ''08/08/2025'' ''msg-2'')))
           = bills (ensure_database :: rat database) @ [b]
       \<and> filter (\<lambda>x. bill_amount x = 28815 / 100 \<and> due_date x = ''08/08/2025'')
            (bills (fst (add_bill exact_ops default_settings (healthy 300) one_bill
                           (draft (28815 / 100) ''08/08/2025'' ''msg-2'')))) = [b]
       \<and> processed_date b = 100
       \<and> snd (add_bill exact_ops default_settings (healthy 300) one_bill
                 (draft (28815 / 100) ''08/08/2025'' ''msg-2''))
           = (False, Duplicate_bill_detected (28815 / 100) ''08/08/2025'' (processed_date b), None)"
proof -
  let ?d1 = "draft (28815 / 100) ''08/08/2025'' ''msg-1''"
  let ?d2 = "draft (28815 / 100) ''08/08/2025'' ''msg-2''"
  let ?first = "add_bill exact_ops default_settings (healthy 100) ensure_database ?d1"
  let ?second = "add_bill exact_ops default_settings (healthy 300) one_bill ?d2"
  have h1: "engine (healthy 100) = Healthy" and h2: "engine (healthy 300) = Healthy"
    by (simp_all add: healthy_def)
  have absent: "\<forall>b\<in>set (bills (ensure_database :: rat database)).
      \<not> (bill_amount b = info_amount ?d1 \<and> due_date b = info_due_date ?d1)"
    by (simp add: ensure_database_def)
  have same: "info_amount ?d2 = info_amount ?d1 \<and> info_due_date ?d2 = info_due_date ?d1"
    by (simp add: draft_def)
  have first: "?first = (one_bill, snd ?first)"
    by (simp add: one_bill_def)
  have second: "?second = (fst ?second, snd ?second)"
    by simp
  have d: "info_amount ?d1 = 28815 / 100" "info_due_date ?d1 = ''08/08/2025''"
    "info_amount ?d2 = 28815 / 100" "info_due_date ?d2 = ''08/08/2025''" "now (healthy 100) = 100"
    by (simp_all add: draft_def healthy_def)
  from add_bill_twice [OF h1 h2 absent same first second]
  show ?thesis
    unfolding d by blast
qed

text \<open>
  C2. A draft whose key the ledger already holds: \<open>add_bill\<close> executes the insertion
  of the \<^verbatim>\<open>duplicate_detected\<close> row on its connection and returns without committing,
  and the connection is closed. The ledger on disk is the one before the call, its log
  still the single \<^verbatim>\<open>bill_added\<close> row: the duplicate was not logged durably.
\<close>

theorem duplicate_log_entry_not_durable:
  "add_bill exact_ops default_settings (healthy 300) one_bill
       (draft (28815 / 100) ''08/08/2025'' ''msg-2'')
     = (one_bill, (False, Duplicate_bill_detected (28815 / 100) ''08/08/2025'' 100, None))
   \<and> map action (processing_log one_bill) = [''bill_added'']"
  by code_simp

text \<open>
  C9. \<open>update_bill_status\<close> on a healthy engine, with an id that fits SQLite's integers:
  a bill with the given id gets the new status; its notes become the note when one is
  passed and stay as they were when none is; putting the old status and notes back gives
  the old row, so no other column has changed; bills with another id are the rows they
  were. With an id that does not fit, the call returns \<open>False\<close> and the ledger is the one
  it was.
\<close>

theorem update_bill_status_frame:
  assumes "engine env = Healthy"
    and "update_bill_status env db i st nt = (db', ok)"
  shows "length (bills db') = length (bills db) \<and>
         (sqlite_int i \<longrightarrow>
            ok \<and>
            (\<forall>k < length (bills db).
               (bill_id (bills db ! k) = i \<longrightarrow>
                  status (bills db' ! k) = st \<and>
                  bill_notes (bills db' ! k) =
                    (case nt of None \<Rightarrow> bill_notes (bills db ! k) | Some n \<Rightarrow> Some n) \<and>
                  (bills db' ! k)\<lparr>status := status (bills db ! k),
                                   bill_notes := bill_notes (bills db ! k)\<rparr> = bills db ! k) \<and>
               (bill_id (bills db ! k) \<noteq> i \<longrightarrow> bills db' ! k = bills db ! k))) \<and>
         (\<not> sqlite_int i \<longrightarrow> \<not> ok \<and> db' = db)"
proof (cases "sqlite_int i")
  case False
  with assms show ?thesis
    by (auto simp: update_bill_status_def)
next
  case True
  with assms have db': "db' = in_transaction (log_action_conn (update_where_id
       (\<lambda>b. b\<lparr>status := st, bill_notes := coalesce nt (bill_notes b)\<rparr>) i (connect db))
       (now env) (Some i) ''status_updated'' (Status_changed_to st))" and ok: "ok"
    by (simp_all add: update_bill_status_def Let_def written_database)
  have bills: "bills db' = map (\<lambda>b. if bill_id b = i
        then b\<lparr>status := st, bill_notes := coalesce nt (bill_notes b)\<rparr> else b) (bills db)"
    unfolding db' by simp
  show ?thesis
    using ok True by (auto simp: bills coalesce_def split: option.splits)
qed

text \<open>
  The theorem at work on the bill with id 1, once without a note and once with one.
\<close>

theorem update_bill_status_frame_witness:
  "status (bills (fst (update_bill_status (healthy 400) one_bill 1 ''completed'' None)) ! 0)
     = ''completed''
   \<and> bill_notes (bills (fst (update_bill_status (healthy 400) one_bill 1 ''completed'' None)) ! 0)
     = Some ''Added from email: Your PG&E Energy Statement''
   \<and> bill_notes (bills (fst (update_bill_status (healthy 400) one_bill 1 ''completed''
                              (Some ''paid in full''))) ! 0)
     = Some ''paid in full''
   \<and> (bills (fst (update_bill_status (healthy 400) one_bill 1 ''completed''
                    (Some ''paid in full''))) ! 0)
         \<lparr>status := status (bills one_bill ! 0), bill_notes := bill_notes (bills one_bill ! 0)\<rparr>
     = bills one_bill ! 0"
proof -
  have h: "engine (healthy 400) = Healthy"
    by (simp add: healthy_def)
  have fit: "sqlite_int 1"
    by (simp add: sqlite_int_def)
  have len: "0 < length (bills one_bill)"
    by code_simp
  have i: "bill_id (bills one_bill ! 0) = 1"
    by code_simp
  have old: "bill_notes (bills one_bill ! 0) = Some ''Added from email: Your PG&E Energy Statement''"
    by code_simp
  define quiet where "quiet = update_bill_status (healthy 400) one_bill 1 ''completed'' None"
  define noted where
    "noted = update_bill_status (healthy 400) one_bill 1 ''completed'' (Some ''paid in full'')"
  have "quiet = (fst quiet, snd quiet)"
    by simp
  from update_bill_status_frame [OF h this [unfolded quiet_def]] len i fit
  have a: "status (bills (fst quiet) ! 0) = ''completed''
      \<and> bill_notes (bills (fst quiet) ! 0) = bill_notes (bills one_bill ! 0)"
    unfolding quiet_def by fastforce
  have "noted = (fst noted, snd noted)"
    by simp
  from update_bill_status_frame [OF h this [unfolded noted_def]] len i fit
  have b: "bill_notes (bills (fst noted) ! 0) = Some ''paid in full''
      \<and> (bills (fst noted) ! 0)
           \<lparr>status := status (bills one_bill ! 0), bill_notes := bill_notes (bills one_bill ! 0)\<rparr>
         = bills one_bill ! 0"
    unfolding noted_def by fastforce
  from a b old show ?thesis
    unfolding quiet_def noted_def by simp
qed




subsection \<open>The ledger: the split amounts\<close>

lemma round_even_error: "\<bar>of_int (round_even q) - q\<bar> \<le> 1 / 2"
proof -
  have "of_int \<lfloor>q\<rfloor> \<le> q" and "q < of_int \<lfloor>q\<rfloor> + 1"
    by linarith+
  then show ?thesis
    by (auto simp: round_even_def Let_def)
qed

lemma bitlen_lower:
  assumes "0 < p"
  shows "(2::rat) powi (bitlen p - 1) \<le> of_int p"
proof -
  from bitlen_bounds [OF assms] have "(2::int) ^ nat (bitlen p - 1) \<le> p"
    by simp
  then have "(of_int ((2::int) ^ nat (bitlen p - 1)) :: rat) \<le> of_int p"
    by (simp only: of_int_le_iff)
  moreover have "1 \<le> bitlen p"
    using assms bitlen_eq_zero_iff [of p] bitlen_nonneg [of p] by linarith
  ultimately show ?thesis
    by (simp add: power_int_nonneg_exp)
qed

lemma bitlen_upper:
  assumes "0 < p"
  shows "(of_int p :: rat) < 2 powi bitlen p"
proof -
  from bitlen_bounds [OF assms] have "p < (2::int) ^ nat (bitlen p)"
    by simp
  then have "(of_int p :: rat) < of_int ((2::int) ^ nat (bitlen p))"
    by (simp only: of_int_less_iff)
  then show ?thesis
    using bitlen_nonneg [of p] by (simp add: power_int_nonneg_exp)
qed

text \<open>\<open>ilog2\<close> is the binary exponent: \<open>2^(ilog2 x) \<le> x < 2^(ilog2 x + 1)\<close>.\<close>

lemma ilog2_le:
  assumes "0 < x"
  shows "2 powi ilog2 x \<le> x"
proof -
  obtain p q where pq: "quotient_of x = (p, q)"
    by (cases "quotient_of x")
  then have q: "0 < q" and x: "x = of_int p / of_int q"
    by (auto simp: quotient_of_denom_pos quotient_of_div)
  with assms have p: "0 < p"
    by (simp add: zero_less_divide_iff)
  show ?thesis
  proof (cases "2 powi (bitlen p - bitlen q) \<le> x")
    case True
    then show ?thesis by (simp add: ilog2_def pq)
  next
    case False
    have "bitlen p - bitlen q - 1 = (bitlen p - 1) - bitlen q"
      by simp
    then have "(2::rat) powi (bitlen p - bitlen q - 1) = 2 powi (bitlen p - 1) / 2 powi bitlen q"
      by (simp only: power_int_diff [of "2::rat" "bitlen p - 1" "bitlen q", simplified])
    also have "\<dots> \<le> of_int p / of_int q"
      using bitlen_lower [OF p] bitlen_upper [OF q] q p by (intro frac_le) simp_all
    also have "\<dots> = x"
      by (simp only: x)
    finally have "2 powi (bitlen p - bitlen q - 1) \<le> x" .
    with False show ?thesis
      by (simp add: ilog2_def pq)
  qed
qed

lemma ilog2_less:
  assumes "0 < x"
  shows "x < 2 powi (ilog2 x + 1)"
proof -
  obtain p q where pq: "quotient_of x = (p, q)"
    by (cases "quotient_of x")
  then have q: "0 < q" and x: "x = of_int p / of_int q"
    by (auto simp: quotient_of_denom_pos quotient_of_div)
  with assms have p: "0 < p"
    by (simp add: zero_less_divide_iff)
  show ?thesis
  proof (cases "2 powi (bitlen p - bitlen q) \<le> x")
    case False
    then show ?thesis by (simp add: ilog2_def pq)
  next
    case True
    have "x = of_int p / of_int q"
      by (rule x)
    also have "\<dots> < 2 powi bitlen p / 2 powi (bitlen q - 1)"
      using bitlen_upper [OF p] bitlen_lower [OF q] q p by (intro frac_less) simp_all
    also have "\<dots> = 2 powi (bitlen p - (bitlen q - 1))"
      by (simp only: power_int_diff [of "2::rat" "bitlen p" "bitlen q - 1", simplified])
    also have "bitlen p - (bitlen q - 1) = bitlen p - bitlen q + 1"
      by simp
    finally show ?thesis
      using True by (simp add: ilog2_def pq)
  qed
qed

text \<open>
  Rounding moves a number by at most half a unit in the last place: by at most
  \<open>2^(-53)\<close> of its magnitude, and by at most \<open>2^(-1075)\<close> in the subnormal range.
\<close>

lemma binary64_error:
  "\<bar>binary64 x - x\<bar> \<le> \<bar>x\<bar> * 2 powi (- 53) + 2 powi (- 1075)"
proof (cases "x = 0")
  case True
  then show ?thesis by (simp add: binary64_def)
next
  case False
  define e where "e = max (ilog2 \<bar>x\<bar>) (- 1022)"
  define u :: rat where "u = 2 powi (e - 52)"
  have u: "0 < u"
    by (simp add: u_def)
  have fl: "binary64 x = sgn x * of_int (round_even (\<bar>x\<bar> / u)) * u"
    using False by (simp add: binary64_def Let_def e_def u_def)
  have "binary64 x - x = sgn x * (of_int (round_even (\<bar>x\<bar> / u)) - \<bar>x\<bar> / u) * u"
    using u by (simp add: fl algebra_simps abs_mult_sgn sgn_mult_abs)
  then have "\<bar>binary64 x - x\<bar> = \<bar>of_int (round_even (\<bar>x\<bar> / u)) - \<bar>x\<bar> / u\<bar> * u"
    using u False by (simp add: abs_mult abs_sgn_eq)
  also have "\<dots> \<le> 1 / 2 * u"
    using round_even_error [of "\<bar>x\<bar> / u"] u by (intro mult_right_mono) simp_all
  also have "1 / 2 * u = 2 powi (e - 53)"
    by (simp add: u_def power_int_diff)
  finally have half: "\<bar>binary64 x - x\<bar> \<le> 2 powi (e - 53)" .
  show ?thesis
  proof (cases "ilog2 \<bar>x\<bar> \<le> - 1022")
    case True
    then have "e = - 1022" by (simp add: e_def)
    with half have "\<bar>binary64 x - x\<bar> \<le> 2 powi (- 1075)" by simp
    moreover have "0 \<le> \<bar>x\<bar> * 2 powi (- 53)" by simp
    ultimately show ?thesis by linarith
  next
    case False
    then have "e = ilog2 \<bar>x\<bar>" by (simp add: e_def)
    then have "(2::rat) powi (e - 53) = 2 powi ilog2 \<bar>x\<bar> * 2 powi (- 53)"
      by (simp add: power_int_diff power_int_minus field_simps)
    also have "\<dots> \<le> \<bar>x\<bar> * 2 powi (- 53)"
      using ilog2_le [of "\<bar>x\<bar>"] \<open>x \<noteq> 0\<close> by (intro mult_right_mono) simp_all
    finally have "\<bar>binary64 x - x\<bar> \<le> \<bar>x\<bar> * 2 powi (- 53)"
      using half by linarith
    moreover have "(0::rat) \<le> 2 powi (- 1075)" by simp
    ultimately show ?thesis by linarith
  qed
qed

lemma binary64_error_coarse:
  "\<bar>binary64 x - x\<bar> \<le> (\<bar>x\<bar> + 1) / 2 ^ 53"
proof -
  have "(2::rat) powi (- 1075) \<le> 2 powi (- 53)"
    by (intro power_int_increasing) simp_all
  with binary64_error [of x] have "\<bar>binary64 x - x\<bar> \<le> \<bar>x\<bar> * 2 powi (- 53) + 2 powi (- 53)"
    by linarith
  also have "\<dots> = (\<bar>x\<bar> + 1) / 2 ^ 53"
    by (simp add: power_int_minus_divide field_simps)
  finally show ?thesis .
qed

text \<open>Two ratios whose float sum is \<^verbatim>\<open>1.0\<close> sum to 1 within \<open>2^(-52)\<close>.\<close>

lemma float_sum_one:
  assumes "binary64 y = 1"
  shows "\<bar>y - 1\<bar> \<le> 1 / 2 ^ 52"
proof -
  have "(2::rat) powi (- 1075) \<le> 2 powi (- 60)"
    by (intro power_int_increasing) simp_all
  with binary64_error [of y] assms
  have "\<bar>1 - y\<bar> \<le> \<bar>y\<bar> * 2 powi (- 53) + 2 powi (- 60)"
    by simp
  then have "\<bar>y - 1\<bar> \<le> \<bar>y\<bar> / 2 ^ 53 + 1 / 2 ^ 60"
    by (simp add: power_int_minus_divide abs_minus_commute)
  moreover have "\<bar>y\<bar> / 2 ^ 53 \<le> (\<bar>y - 1\<bar> + 1) / 2 ^ 53"
    by (intro divide_right_mono) simp_all
  ultimately have "\<bar>y - 1\<bar> \<le> (\<bar>y - 1\<bar> + 1) / 2 ^ 53 + 1 / 2 ^ 60"
    by linarith
  then show ?thesis
    by (simp add: field_simps)
qed

text \<open>
  The double of the literal \<^verbatim>\<open>9007199254740993.01\<close> is 9007199254740994, and the
  default ratios, as doubles, sum to 1. The bill that \<open>add_bill\<close> stores for that amount
  has splits that add up to half a dollar less than the amount.
\<close>

theorem splits_off_by_half_a_dollar:
  "py_float binary64_ops ''9007199254740993.01'' = 9007199254740994
   \<and> ROOMMATE_SPLIT_RATIO binary64_settings + MY_SPLIT_RATIO binary64_settings = 1
   \<and> map (\<lambda>b. (bill_amount b, roommate_portion b, my_portion b,
                 roommate_portion b + my_portion b - bill_amount b))
        (bills (fst (add_bill binary64_ops binary64_settings (healthy 100) ensure_database
                       (draft 9007199254740994 ''08/08/2025'' ''msg-1''))))
       = [(9007199254740994, 6004793498361159 / 2, 6004802505560414, - 1 / 2)]"
proof -
  have lit: "decimal_value ''9007199254740993.01'' = 900719925474099301 / 100"
    by (simp add: decimal_value_def digits_value_def)
  have "py_float binary64_ops ''9007199254740993.01'' = binary64 (900719925474099301 / 100)"
    unfolding lit [symmetric] by (simp add: binary64_ops_def)
  also have "\<dots> = 9007199254740994"
    by code_simp
  finally have a: "py_float binary64_ops ''9007199254740993.01'' = 9007199254740994" .
  have b: "ROOMMATE_SPLIT_RATIO binary64_settings + MY_SPLIT_RATIO binary64_settings = 1"
    by code_simp
  have c: "map (\<lambda>b. (bill_amount b, roommate_portion b, my_portion b,
                 roommate_portion b + my_portion b - bill_amount b))
        (bills (fst (add_bill binary64_ops binary64_settings (healthy 100) ensure_database
                       (draft 9007199254740994 ''08/08/2025'' ''msg-1''))))
       = [(9007199254740994, 6004793498361159 / 2, 6004802505560414, - 1 / 2)]"
    by code_simp
  from a b c show ?thesis by simp
qed

text \<open>
  C3, amended. For every bill that \<open>add_bill\<close> creates in binary64 arithmetic, with an
  amount of at most \<open>10^13\<close> in magnitude and two non-negative ratios that sum to 1
  within \<open>2^(-52)\<close> (as do all pairs whose sum is 1 exactly or is \<^verbatim>\<open>1.0\<close> as a float),
  the stored roommate portion plus the stored own portion differs from the bill amount
  by less than half a cent.
\<close>

theorem splits_sum_to_the_cent:
  assumes healthy: "engine env = Healthy"
    and absent: "\<forall>b\<in>set (bills db).
                   \<not> (bill_amount b = info_amount info \<and> due_date b = info_due_date info)"
    and roommate: "0 \<le> ROOMMATE_SPLIT_RATIO cfg"
    and mine: "0 \<le> MY_SPLIT_RATIO cfg"
    and one: "\<bar>ROOMMATE_SPLIT_RATIO cfg + MY_SPLIT_RATIO cfg - 1\<bar> \<le> 1 / 2 ^ 52"
    and amount: "\<bar>info_amount info\<bar> \<le> 10 ^ 13"
    and add: "add_bill binary64_ops cfg env db info = (db', r)"
  shows "\<exists>b. bills db' = bills db @ [b]
           \<and> bill_amount b = info_amount info
           \<and> roommate_portion b = binary64 (info_amount info * ROOMMATE_SPLIT_RATIO cfg)
           \<and> my_portion b = binary64 (info_amount info * MY_SPLIT_RATIO cfg)
           \<and> \<bar>roommate_portion b + my_portion b - bill_amount b\<bar> < 1 / 200"
proof -
  define a where "a = info_amount info"
  define ra where "ra = ROOMMATE_SPLIT_RATIO cfg"
  define rb where "rb = MY_SPLIT_RATIO cfg"
  from absent have none: "select_existing db (info_amount info) (info_due_date info) = None"
    by (simp add: select_existing_def find_None_iff)
  from add_bill_absent [OF healthy none, of binary64_ops cfg] add
  obtain b where bills: "bills db' = bills db @ [b]"
    and key: "bill_amount b = a"
    and sa: "roommate_portion b = binary64 (a * ra)"
    and sb: "my_portion b = binary64 (a * rb)"
    by (auto simp: binary64_ops_def a_def ra_def rb_def)
  have ea: "\<bar>binary64 (a * ra) - a * ra\<bar> \<le> (\<bar>a\<bar> * ra + 1) / 2 ^ 53"
    using binary64_error_coarse [of "a * ra"] roommate by (simp add: abs_mult ra_def)
  have eb: "\<bar>binary64 (a * rb) - a * rb\<bar> \<le> (\<bar>a\<bar> * rb + 1) / 2 ^ 53"
    using binary64_error_coarse [of "a * rb"] mine by (simp add: abs_mult rb_def)
  have "\<bar>a * ra + a * rb - a\<bar> = \<bar>a\<bar> * \<bar>ra + rb - 1\<bar>"
    by (simp add: abs_mult [symmetric] algebra_simps)
  also have "\<dots> \<le> \<bar>a\<bar> * (1 / 2 ^ 52)"
    using one by (intro mult_left_mono) (simp_all add: ra_def rb_def)
  finally have ec: "\<bar>a * ra + a * rb - a\<bar> \<le> 2 * \<bar>a\<bar> / 2 ^ 53"
    by simp
  have "(1::rat) / 2 ^ 52 \<le> 1"
    by simp
  with one have sum: "ra + rb \<le> 2"
    unfolding ra_def rb_def by linarith
  have "\<bar>a\<bar> * (ra + rb) \<le> 10 ^ 13 * 2"
    using amount sum roommate mine by (intro mult_mono) (simp_all add: a_def ra_def rb_def)
  then have prod: "\<bar>a\<bar> * ra + \<bar>a\<bar> * rb \<le> 2 * 10 ^ 13"
    by (simp add: algebra_simps)
  have "\<bar>binary64 (a * ra) + binary64 (a * rb) - a\<bar>
          \<le> \<bar>binary64 (a * ra) - a * ra\<bar> + \<bar>binary64 (a * rb) - a * rb\<bar>
            + \<bar>a * ra + a * rb - a\<bar>"
    by linarith
  also have "\<dots> \<le> (\<bar>a\<bar> * ra + 1) / 2 ^ 53 + (\<bar>a\<bar> * rb + 1) / 2 ^ 53 + 2 * \<bar>a\<bar> / 2 ^ 53"
    using ea eb ec by linarith
  also have "\<dots> = (\<bar>a\<bar> * ra + \<bar>a\<bar> * rb + 2 * \<bar>a\<bar> + 2) / 2 ^ 53"
    by (simp add: add_divide_distrib)
  also have "\<dots> \<le> (2 * 10 ^ 13 + 2 * 10 ^ 13 + 2) / 2 ^ 53"
    using prod amount by (intro divide_right_mono) (simp_all add: a_def)
  also have "\<dots> < 1 / 200"
    by simp
  finally have "\<bar>roommate_portion b + my_portion b - bill_amount b\<bar> < 1 / 200"
    by (simp add: sa sb key)
  with bills key sa sb show ?thesis
    by (auto simp: a_def ra_def rb_def)
qed

text \<open>
  The theorem at work on the bill of 288.15 with the default ratios; the roommate
  portion is the double \<^verbatim>\<open>96.04990394999999\<close>.
\<close>

theorem splits_sum_to_the_cent_witness:
  "\<exists>b. bills (fst (add_bill binary64_ops binary64_settings (healthy 100) ensure_database
                     (draft (binary64 (28815 / 100)) ''08/08/2025'' ''msg-1'')))
           = bills (ensure_database :: rat database) @ [b]
       \<and> bill_amount b = binary64 (28815 / 100)
       \<and> roommate_portion b = 1689727779836687 / 17592186044416
       \<and> \<bar>roommate_portion b + my_portion b - bill_amount b\<bar> < 1 / 200"
proof -
  let ?d = "draft (binary64 (28815 / 100)) ''08/08/2025'' ''msg-1''"
  let ?add = "add_bill binary64_ops binary64_settings (healthy 100) ensure_database ?d"
  have h: "engine (healthy 100) = Healthy"
    by (simp add: healthy_def)
  have absent: "\<forall>b\<in>set (bills (ensure_database :: rat database)).
      \<not> (bill_amount b = info_amount ?d \<and> due_date b = info_due_date ?d)"
    by (simp add: ensure_database_def)
  have ra: "0 \<le> ROOMMATE_SPLIT_RATIO binary64_settings"
    by code_simp
  have rb: "0 \<le> MY_SPLIT_RATIO binary64_settings"
    by code_simp
  have "binary64 (ROOMMATE_SPLIT_RATIO binary64_settings + MY_SPLIT_RATIO binary64_settings) = 1"
    by code_simp
  then have one: "\<bar>ROOMMATE_SPLIT_RATIO binary64_settings + MY_SPLIT_RATIO binary64_settings - 1\<bar>
               \<le> 1 / 2 ^ 52"
    by (rule float_sum_one)
  have amount: "\<bar>info_amount ?d\<bar> \<le> 10 ^ 13"
    by code_simp
  have add: "?add = (fst ?add, snd ?add)"
    by simp
  have d: "info_amount ?d = binary64 (28815 / 100)"
    by (simp add: draft_def)
  have p: "binary64 (binary64 (28815 / 100) * ROOMMATE_SPLIT_RATIO binary64_settings)
             = 1689727779836687 / 17592186044416"
    by code_simp
  from splits_sum_to_the_cent [OF h absent ra rb one amount add]
  show ?thesis
    unfolding d p by blast
qed

subsection \<open>The ledger: reading the log\<close>

text \<open>
  C10. \<open>get_processing_log\<close> with the bill id 0 returns what it returns with no bill id:
  on a healthy engine, the whole log, newest first, joined with the bills and cut at the
  limit (and \<^verbatim>\<open>OverflowError\<close> for a limit that does not fit SQLite's integers); the
  rows are not filtered to those of bill 0.
\<close>

theorem get_processing_log_zero_id:
  "get_processing_log env db (Some 0) limit = get_processing_log env db None limit
   \<and> (engine env = Healthy \<longrightarrow>
        get_processing_log env db (Some 0) limit =
          (if sqlite_int limit
           then Inr (sql_limit limit
                  (concat (map (left_join_bills db) (newest_first (processing_log db)))))
           else Inl OverflowError))"
  by (simp add: get_processing_log_def truthy_id_def)

text \<open>
  The theorem at work on a ledger whose log has a row for bill 1 and a later row for the
  id 0: both rows come back, joined, the later one first.
\<close>

theorem get_processing_log_zero_id_witness:
  "get_processing_log (healthy 300) zero_logged (Some 0) 50 =
     Inr [Joined_row \<lparr>log_id = 2, log_bill_id = Some 0, action = ''status_updated'',
                       details = Status_changed_to ''completed'', timestamp = 150\<rparr>
            None None,
          Joined_row \<lparr>log_id = 1, log_bill_id = Some 1, action = ''bill_added'',
                       details = New_bill_added_details (28815 / 100) ''08/08/2025'',
                       timestamp = 100\<rparr>
            (Some (28815 / 100)) (Some ''08/08/2025'')]"
proof -
  have h: "engine (healthy 300) = Healthy"
    by (simp add: healthy_def)
  have fit: "sqlite_int 50"
    by (simp add: sqlite_int_def)
  from get_processing_log_zero_id [of "healthy 300" zero_logged 50] h
  have "get_processing_log (healthy 300) zero_logged (Some 0) 50 =
          (if sqlite_int 50
           then Inr (sql_limit 50 (concat (map (left_join_bills zero_logged)
                  (newest_first (processing_log zero_logged)))))
           else Inl OverflowError)"
    by blast
  with fit have "get_processing_log (healthy 300) zero_logged (Some 0) 50 =
          Inr (sql_limit 50 (concat (map (left_join_bills zero_logged)
                 (newest_first (processing_log zero_logged)))))"
    by (simp only: if_True)
  also have "\<dots> = Inr [Joined_row \<lparr>log_id = 2, log_bill_id = Some 0, action = ''status_updated'',
                       details = Status_changed_to ''completed'', timestamp = 150\<rparr>
            None None,
          Joined_row \<lparr>log_id = 1, log_bill_id = Some 1, action = ''bill_added'',
                       details = New_bill_added_details (28815 / 100) ''08/08/2025'',
                       timestamp = 100\<rparr>
            (Some (28815 / 100)) (Some ''08/08/2025'')]"
    by code_simp
  finally show ?thesis .
qed

subsection \<open>The ledger: pending bills\<close>

text \<open>
  C4. Two pending bills, due 12/31/2024 and 01/15/2025: \<open>get_bills_by_status\<close> returns
  the bill due in January 2025 before the bill due in December 2024, since the texts
  are compared and \<^verbatim>\<open>01/\<close> sorts before \<^verbatim>\<open>12/\<close>. That is not the order of the
  dates.
\<close>

theorem pending_bills_in_text_order:
  "map_sum id (map (\<lambda>b. (bill_id b, due_date b)))
       (get_bills_by_status (healthy 300) two_years ''pending'')
     = Inr [(2, ''01/15/2025''), (1, ''12/31/2024'')]"
  by code_simp

subsection \<open>The extractor\<close>

lemma backtrack_Some:
  assumes "backtrack lo j rest s = Some r"
  shows "\<exists>k r'. lo \<le> k \<and> k \<le> lo + j \<and> r = take k s # r' \<and> rest (drop k s) = Some r'"
  using assms
proof (induction j)
  case 0
  then show ?case by auto
next
  case (Suc j)
  show ?case
  proof (cases "rest (drop (lo + Suc j) s)")
    case None
    with Suc.prems have "backtrack lo j rest s = Some r" by simp
    from Suc.IH [OF this] show ?thesis by (metis le_Suc_eq add_Suc_right)
  next
    case (Some r')
    with Suc.prems have "r = take (lo + Suc j) s # r'" by simp
    with Some show ?thesis by (metis le_add1 order_refl)
  qed
qed

lemma repeat_Some:
  assumes "repeat cs lo hi rest s = Some r"
  shows "\<exists>c r'. r = c # r' \<and> lo \<le> length c \<and> rest (drop (length c) s) = Some r'"
proof -
  define run where "run = length (takeWhile (in_charset cs) s)"
  define most where "most = (case hi of None \<Rightarrow> run | Some h \<Rightarrow> min h run)"
  have run: "run \<le> length s"
    unfolding run_def by (rule length_takeWhile_le)
  have most: "most \<le> run"
    unfolding most_def by (simp split: option.splits)
  from assms have ge: "lo \<le> most" and bt: "backtrack lo (most - lo) rest s = Some r"
    unfolding repeat_def Let_def most_def run_def by (simp_all split: if_splits)
  from backtrack_Some [OF bt] obtain k r' where k: "lo \<le> k" "k \<le> lo + (most - lo)"
    and r: "r = take k s # r'" and rest: "rest (drop k s) = Some r'"
    by blast
  from k ge most run have "k \<le> length s" by simp
  then have "length (take k s) = k" by simp
  with k r rest show ?thesis by auto
qed

lemma match_here_least:
  "match_here ts s = Some m \<Longrightarrow> list_all2 (\<lambda>t c. least t \<le> length c) ts m"
proof (induction ts arbitrary: s m)
  case Nil
  then show ?case by simp
next
  case (Cons t ts)
  show ?case
  proof (cases t)
    case (Once cs)
    with Cons.prems have "repeat cs 1 (Some 1) (match_here ts) s = Some m" by simp
    from repeat_Some [OF this] Cons.IH Once show ?thesis by auto
  next
    case (Star cs)
    with Cons.prems have "repeat cs 0 None (match_here ts) s = Some m" by simp
    from repeat_Some [OF this] Cons.IH Star show ?thesis by auto
  next
    case (Plus cs)
    with Cons.prems have "repeat cs 1 None (match_here ts) s = Some m" by simp
    from repeat_Some [OF this] Cons.IH Plus show ?thesis by auto
  next
    case (Times n cs)
    with Cons.prems have "repeat cs n (Some n) (match_here ts) s = Some m" by simp
    from repeat_Some [OF this] Cons.IH Times show ?thesis by auto
  next
    case Open
    with Cons.prems Cons.IH show ?thesis by auto
  next
    case Close
    with Cons.prems Cons.IH show ?thesis by auto
  qed
qed

lemma captures_least:
  "list_all2 (\<lambda>t c. least t \<le> length c) ts cs \<Longrightarrow>
   (case cur of None \<Rightarrow> n = None | Some g \<Rightarrow> \<exists>k. n = Some k \<and> k \<le> length g) \<Longrightarrow>
   list_all2 (\<lambda>k g. k \<le> length g) (least_groups ts n) (captures ts cs cur)"
  by (induction ts cs cur arbitrary: n rule: captures.induct) (auto simp: add_mono)

lemma re_search_groups:
  "re_search p str = Some gs \<Longrightarrow> list_all2 (\<lambda>k g. k \<le> length g) (least_groups p None) gs"
proof (induction str)
  case Nil
  then obtain m where "match_here p [] = Some m" and "gs = captures p m None"
    by auto
  then show ?case
    using captures_least [OF match_here_least, of p "[]" m None None] by simp
next
  case (Cons c s)
  show ?case
  proof (cases "match_here p (c # s)")
    case None
    with Cons show ?thesis by simp
  next
    case (Some m)
    with Cons.prems have "gs = captures p m None" by simp
    with Some show ?thesis
      using captures_least [OF match_here_least, of p "c # s" m None None] by simp
  qed
qed

lemma first_match_Some:
  "first_match ps str = Some gs \<Longrightarrow> \<exists>p\<in>set ps. re_search p str = Some gs"
  by (induction ps) (auto split: option.splits)

lemma first_match_None:
  "(first_match ps str = None) = (\<forall>p\<in>set ps. re_search p str = None)"
  by (induction ps) (auto split: option.splits)

lemma least_groups_amount: "\<forall>p\<in>set AMOUNT_PATTERNS. least_groups p None = [4]"
  by (simp add: AMOUNT_PATTERNS_def lits_def amount_group_def)
lemma least_groups_date: "\<forall>p\<in>set DATE_PATTERNS. least_groups p None = [10]"
  by (simp add: DATE_PATTERNS_def lits_def date_group_def date_tokens_def)
lemma least_groups_period: "\<forall>p\<in>set PERIOD_PATTERNS. least_groups p None = [10, 10]"
  by (simp add: PERIOD_PATTERNS_def lits_def date_group_def date_tokens_def)

lemma amount_groups:
  assumes "first_match AMOUNT_PATTERNS str = Some gs"
  shows "\<exists>g. gs = [g]"
proof -
  from first_match_Some [OF assms] obtain p
    where p: "p \<in> set AMOUNT_PATTERNS" and m: "re_search p str = Some gs" by blast
  from least_groups_amount p have "least_groups p None = [4]" by blast
  with re_search_groups [OF m] have "list_all2 (\<lambda>k g. k \<le> length g) [4] gs" by simp
  then show ?thesis by (cases gs) simp_all
qed

lemma date_groups:
  assumes "first_match DATE_PATTERNS str = Some gs"
  shows "\<exists>d. gs = [d] \<and> d \<noteq> []"
proof -
  from first_match_Some [OF assms] obtain p
    where p: "p \<in> set DATE_PATTERNS" and m: "re_search p str = Some gs" by blast
  from least_groups_date p have "least_groups p None = [10]" by blast
  with re_search_groups [OF m] have "list_all2 (\<lambda>k g. k \<le> length g) [10] gs" by simp
  then show ?thesis by (cases gs) auto
qed

lemma period_groups:
  assumes "first_match PERIOD_PATTERNS str = Some gs"
  shows "\<exists>a b. gs = [a, b]"
proof -
  from first_match_Some [OF assms] obtain p
    where p: "p \<in> set PERIOD_PATTERNS" and m: "re_search p str = Some gs" by blast
  from least_groups_period p have "least_groups p None = [10, 10]" by blast
  with re_search_groups [OF m] have "list_all2 (\<lambda>k g. k \<le> length g) [10, 10] gs" by simp
  then show ?thesis by (cases gs) (auto simp: list_all2_Cons1)
qed


lemma extract_amount_None:
  "(extract_amount ops str = None) = (\<forall>p\<in>set AMOUNT_PATTERNS. re_search p str = None)"
proof (cases "first_match AMOUNT_PATTERNS str")
  case None
  then show ?thesis by (simp add: extract_amount_def first_match_None [symmetric])
next
  case (Some gs)
  with amount_groups [OF Some] show ?thesis
    by (auto simp: extract_amount_def first_match_None [symmetric])
qed

lemma extract_due_date_None:
  "(extract_due_date str = None) = (\<forall>p\<in>set DATE_PATTERNS. re_search p str = None)"
proof (cases "first_match DATE_PATTERNS str")
  case None
  then show ?thesis by (simp add: extract_due_date_def first_match_None [symmetric])
next
  case (Some gs)
  with date_groups [OF Some] show ?thesis
    by (auto simp: extract_due_date_def first_match_None [symmetric])
qed

lemma extract_due_date_nonempty: "extract_due_date str = Some d \<Longrightarrow> d \<noteq> []"
proof (cases "first_match DATE_PATTERNS str")
  case None
  assume "extract_due_date str = Some d"
  with None show ?thesis by (simp add: extract_due_date_def)
next
  case (Some gs)
  assume "extract_due_date str = Some d"
  with date_groups [OF Some] Some show ?thesis
    by (auto simp: extract_due_date_def)
qed

lemma extract_bill_period_None:
  "(extract_bill_period str = None) = (\<forall>p\<in>set PERIOD_PATTERNS. re_search p str = None)"
proof (cases "first_match PERIOD_PATTERNS str")
  case None
  then show ?thesis by (simp add: extract_bill_period_def first_match_None [symmetric])
next
  case (Some gs)
  with period_groups [OF Some] show ?thesis
    by (auto simp: extract_bill_period_def first_match_None [symmetric])
qed

text \<open>
  Two texts. In the first no rule matches at all, and the error is the missing amount,
  not the missing due date. In the second an amount rule and a due-date rule match, the
  amount read is \<^verbatim>\<open>0.00\<close>, and the result is the missing-amount error.
\<close>

theorem parse_bill_email_counterexample:
  "map (\<lambda>p. re_search p ''hello'') DATE_PATTERNS = [None, None, None, None, None, None]
   \<and> parse_bill_email exact_ops ''hello'' = Inl Could_not_extract_bill_amount
   \<and> re_search (AMOUNT_PATTERNS ! 1) ''Amount Due: $0.00 Due Date: 01/15/2026'' = Some [''0.00'']
   \<and> re_search (DATE_PATTERNS ! 1) ''Amount Due: $0.00 Due Date: 01/15/2026'' = Some [''01/15/2026'']
   \<and> parse_bill_email exact_ops ''Amount Due: $0.00 Due Date: 01/15/2026''
       = Inl Could_not_extract_bill_amount"
  by code_simp

text \<open>
  C7. \<open>parse_bill_email\<close> fails with the missing-amount error when no amount rule
  matches. When an amount rule matches and the amount read is not zero, it fails with the
  missing-due-date error if no due-date rule matches, and otherwise succeeds with that
  amount, the due date and whatever \<open>extract_bill_period\<close> found, which is nothing when
  no billing-period rule matches. An amount rule that matches always yields an amount.
\<close>

theorem parse_bill_email_outcomes:
  "((\<forall>p\<in>set AMOUNT_PATTERNS. re_search p str = None) \<longrightarrow>
      parse_bill_email ops str = Inl Could_not_extract_bill_amount)
   \<and> (\<forall>a. extract_amount ops str = Some a \<and> py_bool ops a \<and>
           (\<forall>p\<in>set DATE_PATTERNS. re_search p str = None) \<longrightarrow>
           parse_bill_email ops str = Inl Could_not_extract_due_date)
   \<and> (\<forall>a. extract_amount ops str = Some a \<and> py_bool ops a \<and>
           (\<exists>p\<in>set DATE_PATTERNS. re_search p str \<noteq> None) \<longrightarrow>
           (\<exists>d. extract_due_date str = Some d \<and>
                parse_bill_email ops str =
                  Inr \<lparr>info_amount = a, info_due_date = d,
                       info_bill_period = extract_bill_period str, info_raw_text = str\<rparr>))
   \<and> ((\<forall>p\<in>set PERIOD_PATTERNS. re_search p str = None) \<longrightarrow> extract_bill_period str = None)
   \<and> ((\<exists>p\<in>set AMOUNT_PATTERNS. re_search p str \<noteq> None) \<longrightarrow>
        (\<exists>a. extract_amount ops str = Some a))"
proof -
  have 1: "(\<forall>p\<in>set AMOUNT_PATTERNS. re_search p str = None) \<longrightarrow>
      parse_bill_email ops str = Inl Could_not_extract_bill_amount"
    using extract_amount_None [of ops str] by (auto simp: parse_bill_email_def)
  have 2: "\<forall>a. extract_amount ops str = Some a \<and> py_bool ops a \<and>
           (\<forall>p\<in>set DATE_PATTERNS. re_search p str = None) \<longrightarrow>
           parse_bill_email ops str = Inl Could_not_extract_due_date"
    using extract_due_date_None [of str] by (auto simp: parse_bill_email_def)
  have 3: "\<forall>a. extract_amount ops str = Some a \<and> py_bool ops a \<and>
           (\<exists>p\<in>set DATE_PATTERNS. re_search p str \<noteq> None) \<longrightarrow>
           (\<exists>d. extract_due_date str = Some d \<and>
                parse_bill_email ops str =
                  Inr \<lparr>info_amount = a, info_due_date = d,
                       info_bill_period = extract_bill_period str, info_raw_text = str\<rparr>)"
  proof (intro allI impI, elim conjE)
    fix a
    assume a: "extract_amount ops str = Some a" "py_bool ops a"
      and "\<exists>p\<in>set DATE_PATTERNS. re_search p str \<noteq> None"
    then have "extract_due_date str \<noteq> None"
      by (simp add: extract_due_date_None)
    then obtain d where d: "extract_due_date str = Some d" by blast
    with extract_due_date_nonempty [OF d] a
    show "\<exists>d. extract_due_date str = Some d \<and>
                parse_bill_email ops str =
                  Inr \<lparr>info_amount = a, info_due_date = d,
                       info_bill_period = extract_bill_period str, info_raw_text = str\<rparr>"
      by (simp add: parse_bill_email_def)
  qed
  have 4: "(\<forall>p\<in>set PERIOD_PATTERNS. re_search p str = None) \<longrightarrow> extract_bill_period str = None"
    by (simp add: extract_bill_period_None)
  have 5: "(\<exists>p\<in>set AMOUNT_PATTERNS. re_search p str \<noteq> None) \<longrightarrow>
        (\<exists>a. extract_amount ops str = Some a)"
    using extract_amount_None [of ops str] by auto
  from 1 2 3 4 5 show ?thesis by blast
qed

text \<open>
  The theorem at work on a plain statement email, on a text with an amount only and on
  a text with a due date only.
\<close>

theorem parse_bill_email_outcomes_witness:
  "parse_bill_email exact_ops (body plain_email)
     = Inr \<lparr>info_amount = 28815 / 100, info_due_date = ''08/08/2025'',
            info_bill_period = None, info_raw_text = body plain_email\<rparr>
   \<and> parse_bill_email exact_ops ''Amount Due: $12.00'' = Inl Could_not_extract_due_date
   \<and> parse_bill_email exact_ops ''Due Date: 08/08/2025'' = Inl Could_not_extract_bill_amount"
proof -
  have amount: "extract_amount exact_ops (body plain_email) = Some (28815 / 100)"
    by code_simp
  have nonzero: "py_bool exact_ops (28815 / 100)"
    by code_simp
  have due: "\<exists>p\<in>set DATE_PATTERNS. re_search p (body plain_email) \<noteq> None"
    by code_simp
  have date: "extract_due_date (body plain_email) = Some ''08/08/2025''"
    by code_simp
  have period: "\<forall>p\<in>set PERIOD_PATTERNS. re_search p (body plain_email) = None"
    by code_simp
  from parse_bill_email_outcomes [of "body plain_email" exact_ops] amount nonzero due period
  have "\<exists>d. extract_due_date (body plain_email) = Some d \<and>
          parse_bill_email exact_ops (body plain_email)
            = Inr \<lparr>info_amount = 28815 / 100, info_due_date = d,
                   info_bill_period = None, info_raw_text = body plain_email\<rparr>"
    by auto
  with date have a: "parse_bill_email exact_ops (body plain_email)
     = Inr \<lparr>info_amount = 28815 / 100, info_due_date = ''08/08/2025'',
            info_bill_period = None, info_raw_text = body plain_email\<rparr>"
    by auto
  have amount2: "extract_amount exact_ops ''Amount Due: $12.00'' = Some 12"
    by code_simp
  have nonzero2: "py_bool exact_ops 12"
    by code_simp
  have nodate: "\<forall>p\<in>set DATE_PATTERNS. re_search p ''Amount Due: $12.00'' = None"
    by code_simp
  from parse_bill_email_outcomes [of "''Amount Due: $12.00''" exact_ops] amount2 nonzero2 nodate
  have b: "parse_bill_email exact_ops ''Amount Due: $12.00'' = Inl Could_not_extract_due_date"
    by blast
  have noamount: "\<forall>p\<in>set AMOUNT_PATTERNS. re_search p ''Due Date: 08/08/2025'' = None"
    by code_simp
  from parse_bill_email_outcomes [of "''Due Date: 08/08/2025''" exact_ops] noamount
  have c: "parse_bill_email exact_ops ''Due Date: 08/08/2025'' = Inl Could_not_extract_bill_amount"
    by blast
  from a b c show ?thesis by simp
qed

subsection \<open>The ingestion driver\<close>

text \<open>Every message of a run raises exactly one of the three counters.\<close>

lemma process_message_counts:
  assumes "process_message ops cfg mail env db res m = (db', res')"
  shows "processed res' + duplicates res' + errors res'
           = Suc (processed res + duplicates res + errors res)"
  using assms
  by (auto simp: process_message_def split: outcome.splits option.splits prod.splits if_splits)

lemma process_messages_counts:
  "process_messages ops cfg mail envs i db res ms = (db', res') \<Longrightarrow>
   processed res' + duplicates res' + errors res'
     = processed res + duplicates res + errors res + length ms"
proof (induction ms arbitrary: i db res)
  case Nil
  then show ?case by simp
next
  case (Cons m ms)
  obtain db1 res1 where step: "process_message ops cfg mail (envs i) db res m = (db1, res1)"
    by (cases "process_message ops cfg mail (envs i) db res m")
  with Cons.prems have "process_messages ops cfg mail envs (Suc i) db1 res1 ms = (db', res')"
    by simp
  from Cons.IH [OF this] process_message_counts [OF step] show ?case
    by simp
qed

text \<open>
  C8. A run over one message that parses, during whose \<open>add_bill\<close> the storage engine
  raises: \<open>add_bill\<close> catches the exception and returns \<open>False\<close>, and the driver counts
  the message under \<open>duplicates\<close> and lists it in \<open>duplicate_bills\<close>; \<open>errors\<close> stays 0
  and no error message is recorded.
\<close>

theorem storage_failure_counted_as_duplicate:
  "process_latest_bills exact_ops default_settings mailbox
       (\<lambda>i. failing OperationalError 100) ensure_database [''msg-1'']
     = (ensure_database,
        \<lparr>processed = 0, duplicates = 1, errors = 0, new_bills = [],
         duplicate_bills = [\<lparr>dup_amount = 28815 / 100, dup_due_date = ''08/08/2025'',
                              dup_email_subject = ''Your PG&E Energy Statement''\<rparr>],
         error_messages = []\<rparr>)"
  by code_simp

subsection \<open>The coordinator\<close>

text \<open>
  The notification step does nothing whenever the dictionary it is given says that no
  PDF has been generated, whatever the ledger holds by then.
\<close>

lemma notification_skipped_on_stale_snapshot:
  "\<not> pdf_generated bill \<Longrightarrow> send_notification_step coll envs db i bill = Go_on db"
  by (simp add: send_notification_step_def)

text \<open>
  C5. One pass of the loop body over a freshly added bill, every collaborator succeeding
  and the storage engine healthy: the PDF is generated and marked, the Venmo request is
  marked, and \<open>pdf_sent\<close> stays false, because the notification step tests the
  \<^verbatim>\<open>pdf_generated\<close> of the dictionary read before the PDF was generated. The status
  stays \<^verbatim>\<open>pending\<close>.
\<close>

theorem coordinator_pass_leaves_pdf_sent_false:
  "map (\<lambda>b. (pdf_generated b, pdf_sent b, venmo_sent b, status b))
       (bills (fst (process_new_bill obliging default_settings (all_healthy 500) one_bill 1)))
     = [(True, False, True, ''pending'')]
   \<and> map (\<lambda>b. (pdf_generated b, pdf_sent b, venmo_sent b, status b)) (bills one_bill)
     = [(False, False, False, ''pending'')]"
  by code_simp

end
